theory Spec2Isabelle
  imports Complex_Main "HOL-Library.Multiset"
begin

section \<open>JavaScript values used by the telemetry core\<close>

text \<open>
  A JavaScript number is modelled as a rational or \<open>NaN\<close>. The numbers that occur are
  quotients of integers below \<open>2 ^ 16\<close> by 1, 10 or 100 and the literals of the source;
  the rounding of a quotient to the nearest double is not modelled, and \<open>-0\<close> is
  identified with \<open>0\<close> (both are falsy and compare equal in the source).
  A string is a list of code units; only code units below 256 are represented.
\<close>

datatype jsnum = NaN | Num rat

text \<open>\<open>x / d\<close> for a non-zero literal \<open>d\<close>: \<open>NaN\<close> is propagated.\<close>

fun jsdiv :: "jsnum \<Rightarrow> rat \<Rightarrow> jsnum" where
  "jsdiv NaN d = NaN"
| "jsdiv (Num x) d = Num (x / d)"

text \<open>\<open>v || 0\<close> on a possibly absent number: \<open>undefined\<close>, \<open>NaN\<close> and \<open>0\<close> are falsy.\<close>

fun num_truthy :: "jsnum option \<Rightarrow> bool" where
  "num_truthy None = False"
| "num_truthy (Some NaN) = False"
| "num_truthy (Some (Num x)) = (x \<noteq> 0)"

definition num_or :: "jsnum option \<Rightarrow> jsnum option \<Rightarrow> jsnum option" where
  "num_or a b = (if num_truthy a then a else b)"

fun the_num :: "jsnum option \<Rightarrow> jsnum" where
  "the_num None = NaN"
| "the_num (Some v) = v"

text \<open>\<open>a || b\<close> on possibly absent strings: \<open>undefined\<close> and the empty string are falsy.\<close>

fun str_truthy :: "string option \<Rightarrow> bool" where
  "str_truthy None = False"
| "str_truthy (Some s) = (s \<noteq> [])"

definition str_or :: "string option \<Rightarrow> string option \<Rightarrow> string option" where
  "str_or a b = (if str_truthy a then a else b)"

text \<open>\<open>String.prototype.startsWith\<close>, \<open>substr\<close> and \<open>includes\<close>.\<close>

definition startsWith :: "string \<Rightarrow> string \<Rightarrow> bool" where
  "startsWith s p = (take (length p) s = p)"

definition substr :: "string \<Rightarrow> nat \<Rightarrow> nat \<Rightarrow> string" where
  "substr s start len = take len (drop start s)"

fun str_includes :: "string \<Rightarrow> string \<Rightarrow> bool" where
  "str_includes [] p = (p = [])"
| "str_includes (c # cs) p = (take (length p) (c # cs) = p \<or> str_includes cs p)"

subsection \<open>\<open>parseInt(s, 16)\<close>\<close>

text \<open>
  The steps of ECMAScript's \<open>parseInt\<close> at radix 16: leading white space is trimmed, one
  sign is read, a prefix \<open>0x\<close> or \<open>0X\<close> is skipped, the longest run of hexadecimal digits
  is taken, and an empty run gives \<open>NaN\<close>.
\<close>

definition isStrWhiteSpace :: "char \<Rightarrow> bool" where
  "isStrWhiteSpace c = ((of_char c :: nat) \<in> {9, 10, 11, 12, 13, 32, 160})"

definition hexDigit :: "char \<Rightarrow> nat option" where
  "hexDigit c = (let n = (of_char c :: nat) in
     if 48 \<le> n \<and> n \<le> 57 then Some (n - 48)
     else if 97 \<le> n \<and> n \<le> 102 then Some (n - 87)
     else if 65 \<le> n \<and> n \<le> 70 then Some (n - 55)
     else None)"

definition isHexDigit :: "char \<Rightarrow> bool" where
  "isHexDigit c = (hexDigit c \<noteq> None)"

definition digitValue :: "char \<Rightarrow> nat" where
  "digitValue c = (case hexDigit c of None \<Rightarrow> 0 | Some v \<Rightarrow> v)"

definition radix16 :: "string \<Rightarrow> nat" where
  "radix16 z = foldl (\<lambda>a c. 16 * a + digitValue c) 0 z"

definition parseInt16 :: "string \<Rightarrow> jsnum" where
  "parseInt16 str =
    (let S = dropWhile isStrWhiteSpace str;
         sign = (if S \<noteq> [] \<and> hd S = CHR ''-'' then - 1 else 1);
         S1 = (if S \<noteq> [] \<and> (hd S = CHR ''+'' \<or> hd S = CHR ''-'') then tl S else S);
         S2 = (if take 2 S1 = ''0x'' \<or> take 2 S1 = ''0X'' then drop 2 S1 else S1);
         Z = takeWhile isHexDigit S2
     in if Z = [] then NaN else Num (sign * of_nat (radix16 Z)))"

text \<open>
  The run of hexadecimal digits that \<open>parseInt\<close> reads from a string, by the same
  steps; \<open>parseInt\<close> gives \<open>NaN\<close> exactly when it is empty.
\<close>

definition digitRun :: "string \<Rightarrow> string" where
  "digitRun str =
    (let S = dropWhile isStrWhiteSpace str;
         S1 = (if S \<noteq> [] \<and> (hd S = CHR ''+'' \<or> hd S = CHR ''-'') then tl S else S);
         S2 = (if take 2 S1 = ''0x'' \<or> take 2 S1 = ''0X'' then drop 2 S1 else S1)
     in takeWhile isHexDigit S2)"

section \<open>Hex decoder\<close>

text \<open>
  The object returned by \<open>decodeHexData\<close> is a list of its properties in the order the
  source writes them; \<open>null\<close> is \<open>None\<close>. On string arguments no operation of the body
  throws (\<open>startsWith\<close>, \<open>substr\<close>, \<open>parseInt\<close> and \<open>/\<close> are total on strings and
  numbers), so the \<open>catch\<close> branch of the source is not reachable here.
\<close>

type_synonym decoded = "(string \<times> jsnum) list"

definition chunk :: "string \<Rightarrow> nat \<Rightarrow> jsnum" where
  "chunk hexString start = parseInt16 (substr hexString start 4)"

definition decodeHexData :: "string \<Rightarrow> string \<Rightarrow> decoded option" where
  "decodeHexData hexString deviceCode =
    (if startsWith deviceCode ''CZ'' then
       Some [(''ph'', jsdiv (chunk hexString 0) 100),
             (''moisture'', jsdiv (chunk hexString 4) 10),
             (''ec'', jsdiv (chunk hexString 8) 100),
             (''temperature'', jsdiv (chunk hexString 12) 10)]
     else if startsWith deviceCode ''MZ'' \<or> startsWith deviceCode ''SZ'' then
       Some [(''ph'', jsdiv (chunk hexString 0) 100),
             (''ec'', jsdiv (chunk hexString 4) 100),
             (''temperature'', jsdiv (chunk hexString 8) 10)]
     else if startsWith deviceCode ''GZ'' then
       Some [(''temperature'', jsdiv (chunk hexString 0) 10),
             (''humidity'', jsdiv (chunk hexString 4) 10),
             (''light'', chunk hexString 8)]
     else if startsWith deviceCode ''HZ'' then
       Some [(''ph'', jsdiv (chunk hexString 0) 100),
             (''tdsLevel'', jsdiv (chunk hexString 4) 10),
             (''temperature'', jsdiv (chunk hexString 8) 10)]
     else None)"

text \<open>
  The specification's reading of a chunk: four hexadecimal digits as an unsigned
  16-bit integer, most significant digit first.
\<close>

fun hex16 :: "string \<Rightarrow> nat" where
  "hex16 [a, b, c, d] = 4096 * digitValue a + 256 * digitValue b + 16 * digitValue c + digitValue d"
| "hex16 _ = 0"

definition knownFamily :: "string \<Rightarrow> bool" where
  "knownFamily deviceCode =
    (startsWith deviceCode ''CZ'' \<or> startsWith deviceCode ''MZ'' \<or> startsWith deviceCode ''SZ''
     \<or> startsWith deviceCode ''GZ'' \<or> startsWith deviceCode ''HZ'')"

section \<open>External fetcher\<close>

text \<open>
  The upstream envelope after \<open>response.json()\<close>. Every property may be absent. The
  identifier and the timestamp of the adapted reading are either a string of the
  envelope or synthesized from the fetch instant (the prefix \<open>ext_\<close> before
  \<open>Date.now()\<close>, and \<open>new Date().toISOString()\<close>); a synthesized string is kept as
  its instant.
\<close>

record reading_part =
  encoded_data :: "string option"
  r_timestamp :: "string option"

record envelope =
  device_code :: "string option"
  reading :: "reading_part option"
  e_id :: "string option"
  e__id :: "string option"
  e_reading_id :: "string option"
  e_timestamp :: "string option"
  e_created_at :: "string option"
  e_time :: "string option"

datatype ext_text = Given string | FromInstant int

record ExternalDatabaseReading =
  x_id :: ext_text
  x_temperature :: jsnum
  x_ph :: jsnum
  x_tdsLevel :: jsnum
  x_timestamp :: ext_text

text \<open>
  What the network call can do: \<open>fetch\<close> rejects (connection refused, DNS, or the abort
  after the 10 second timeout), or a response arrives with a status, an optional
  \<open>content-type\<close> header and a body that \<open>response.json()\<close> rejects, parses to
  \<open>null\<close>, or parses to an envelope.
\<close>

datatype http_body = NotJson | JsonNull | Json envelope

datatype http_outcome = FetchRejected | Response bool "string option" http_body

datatype exn = NetworkError | ApiError | UnexpectedContentType | SyntaxError | TypeError

text \<open>The body of the \<open>try\<close> block of \<open>fetchLatestReading\<close>; \<open>Inl\<close> is a thrown error.\<close>

definition adapt :: "int \<Rightarrow> envelope \<Rightarrow> decoded \<Rightarrow> ExternalDatabaseReading" where
  "adapt now data decodedData =
    \<lparr> x_id = (case str_or (e_id data) (str_or (e__id data) (e_reading_id data)) of
                 Some s \<Rightarrow> if s \<noteq> [] then Given s else FromInstant now
               | None \<Rightarrow> FromInstant now),
      x_temperature = the_num (num_or (map_of decodedData ''temperature'') (Some (Num 0))),
      x_ph = the_num (num_or (map_of decodedData ''ph'') (Some (Num 0))),
      x_tdsLevel = the_num (num_or (map_of decodedData ''tdsLevel'')
                     (num_or (map_of decodedData ''ec'') (Some (Num 0)))),
      x_timestamp =
        (case str_or (case reading data of None \<Rightarrow> None | Some r \<Rightarrow> r_timestamp r)
                (str_or (e_timestamp data) (str_or (e_created_at data) (e_time data))) of
           Some s \<Rightarrow> if s \<noteq> [] then Given s else FromInstant now
         | None \<Rightarrow> FromInstant now) \<rparr>"

definition fetchLatestReading_try :: "int \<Rightarrow> http_outcome \<Rightarrow> exn + ExternalDatabaseReading option" where
  "fetchLatestReading_try now outcome =
    (case outcome of
       FetchRejected \<Rightarrow> Inl NetworkError
     | Response ok contentType body \<Rightarrow>
         if \<not> ok then Inl ApiError
         else if (case contentType of None \<Rightarrow> True | Some ct \<Rightarrow> \<not> str_includes ct ''application/json'')
           then Inl UnexpectedContentType
         else (case body of
             NotJson \<Rightarrow> Inl SyntaxError
           | JsonNull \<Rightarrow> Inl TypeError
           | Json data \<Rightarrow>
               (let deviceCode = (case str_or (device_code data) (Some ''UNKNOWN'') of
                                    Some s \<Rightarrow> s | None \<Rightarrow> ''UNKNOWN'');
                    encodedData = (case reading data of None \<Rightarrow> None | Some r \<Rightarrow> encoded_data r)
                in if \<not> str_truthy encodedData then Inr None
                   else (case encodedData of
                       None \<Rightarrow> Inr None
                     | Some hexString \<Rightarrow>
                         (case decodeHexData hexString deviceCode of
                            None \<Rightarrow> Inr None
                          | Some decodedData \<Rightarrow> Inr (Some (adapt now data decodedData)))))))"

text \<open>\<open>fetchLatestReading\<close>: the \<open>try\<close> block under its \<open>catch\<close>, which returns \<open>null\<close>.\<close>

definition fetchLatestReading :: "int \<Rightarrow> http_outcome \<Rightarrow> exn + ExternalDatabaseReading option" where
  "fetchLatestReading now outcome =
    (case fetchLatestReading_try now outcome of
       Inl e \<Rightarrow> Inr None
     | Inr r \<Rightarrow> Inr r)"

definition fullyFormed :: "ExternalDatabaseReading \<Rightarrow> bool" where
  "fullyFormed x = (x_temperature x \<noteq> NaN \<and> x_ph x \<noteq> NaN \<and> x_tdsLevel x \<noteq> NaN)"

section \<open>Persistent store and orchestrator state\<close>

subsection \<open>Column types of the store\<close>

text \<open>
  The shared schema declares the sensor values and the usage figures as \<open>real\<close>
  columns and \<open>data_points\<close> as an \<open>integer\<close> column. A number written to a \<open>real\<close>
  column is rounded to the nearest single-precision value (ties to even, below
  \<open>2 ^ -126\<close> in steps of \<open>2 ^ -149\<close>); a non-zero number that rounds to zero or to
  \<open>2 ^ 128\<close> and beyond is refused by the store. What is read back is the shortest
  decimal that rounds to the stored value (at most nine digits). \<open>NaN\<close> is stored as it
  is. An \<open>integer\<close> column takes the counts below \<open>2 ^ 31\<close>.
\<close>

definition pow2 :: "int \<Rightarrow> rat" where
  "pow2 e = (if 0 \<le> e then 2 ^ nat e else 1 / 2 ^ nat (- e))"

definition pow10 :: "int \<Rightarrow> rat" where
  "pow10 e = (if 0 \<le> e then 10 ^ nat e else 1 / 10 ^ nat (- e))"

text \<open>\<open>floorLog n b a\<close>: the integer part of the logarithm of \<open>a\<close> to base \<open>b\<close>, in \<open>n\<close> steps.\<close>

fun floorLog :: "nat \<Rightarrow> rat \<Rightarrow> rat \<Rightarrow> int" where
  "floorLog 0 b a = 0"
| "floorLog (Suc n) b a =
    (if b \<le> a then floorLog n b (a / b) + 1
     else if a < 1 then floorLog n b (a * b) - 1
     else 0)"

definition halfEven :: "int \<Rightarrow> rat \<Rightarrow> int" where
  "halfEven f d = (if d < 1 / 2 then f else if 1 / 2 < d then f + 1 else if even f then f else f + 1)"

definition roundHalfEven :: "rat \<Rightarrow> int" where
  "roundHalfEven r = halfEven \<lfloor>r\<rfloor> (r - of_int \<lfloor>r\<rfloor>)"

definition quantum :: "rat \<Rightarrow> rat" where
  "quantum a = pow2 (max (- 126) (floorLog 400 2 a) - 23)"

definition roundTo :: "rat \<Rightarrow> rat \<Rightarrow> rat" where
  "roundTo q a = of_int (roundHalfEven (a / q)) * q"

definition nearestFloat32 :: "rat \<Rightarrow> rat" where
  "nearestFloat32 a = roundTo (quantum a) a"

text \<open>The decimals with last digit at \<open>10 ^ m\<close> next to \<open>f\<close>, and the nearer of the two.\<close>

definition below :: "int \<Rightarrow> rat \<Rightarrow> rat" where
  "below m f = of_int \<lfloor>f / pow10 m\<rfloor> * pow10 m"

definition above :: "int \<Rightarrow> rat \<Rightarrow> rat" where
  "above m f = below m f + pow10 m"

definition closer :: "int \<Rightarrow> rat \<Rightarrow> rat" where
  "closer m f =
    (if f - below m f < above m f - f then below m f
     else if above m f - f < f - below m f then above m f
     else if even \<lfloor>f / pow10 m\<rfloor> then below m f else above m f)"

fun shortestDecimal :: "nat \<Rightarrow> int \<Rightarrow> rat \<Rightarrow> rat" where
  "shortestDecimal 0 m f = f"
| "shortestDecimal (Suc n) m f =
    (if nearestFloat32 (below m f) = f \<and> nearestFloat32 (above m f) = f then closer m f
     else if nearestFloat32 (below m f) = f then below m f
     else if nearestFloat32 (above m f) = f then above m f
     else shortestDecimal n (m - 1) f)"

definition readBack :: "rat \<Rightarrow> rat \<Rightarrow> rat option" where
  "readBack sg f =
    (if f = 0 \<or> pow2 128 \<le> f then None
     else Some (sg * shortestDecimal 9 (floorLog 60 10 f) f))"

definition float4 :: "rat \<Rightarrow> rat option" where
  "float4 x = (if x = 0 then Some 0 else readBack (sgn x) (nearestFloat32 \<bar>x\<bar>))"

text \<open>
  \<open>realColumn v\<close> is what a \<open>real\<close> column gives back for \<open>v\<close>, or \<open>None\<close> if the store
  refuses \<open>v\<close>.
\<close>

fun realColumn :: "jsnum \<Rightarrow> jsnum option" where
  "realColumn NaN = Some NaN"
| "realColumn (Num x) = map_option Num (float4 x)"

definition realInRange :: "jsnum \<Rightarrow> bool" where
  "realInRange v = (realColumn v \<noteq> None)"

definition asReal :: "jsnum \<Rightarrow> jsnum" where
  "asReal v = (case realColumn v of None \<Rightarrow> v | Some w \<Rightarrow> w)"

definition int4InRange :: "nat \<Rightarrow> bool" where
  "int4InRange n = (n < 2 ^ 31)"

subsection \<open>Rows and state\<close>

text \<open>
  Identifiers. A persisted row carries a key generated by the store (the schema's
  \<open>uuid\<close> with \<open>defaultRandom()\<close>, kept as a fresh number); the identifiers the
  orchestrator synthesizes are a fixed prefix followed by \<open>Date.now()\<close>
  (\<open>external_\<close>, \<open>sample_\<close>, \<open>fallback_\<close>, \<open>memory_\<close>) and are kept as the prefix
  and the instant. The singleton objects use the literals \<open>'fallback'\<close> and \<open>'default'\<close>.
\<close>

datatype reading_id = RowId nat | ExternalId int | SampleId int | FallbackId int | MemoryId int

datatype row_key = Generated nat | FallbackKey | DefaultKey

datatype connection_status = Connected | Disconnected | Error

record SensorReading =
  r_id :: reading_id
  timestamp :: int
  createdAt :: int
  temperature :: jsnum
  ph :: jsnum
  tdsLevel :: jsnum

record InsertSensorReading =
  i_temperature :: jsnum
  i_ph :: jsnum
  i_tdsLevel :: jsnum

record SystemStatus =
  s_id :: row_key
  connectionStatus :: connection_status
  lastUpdate :: int
  dataPoints :: nat
  cpuUsage :: jsnum
  memoryUsage :: jsnum
  storageUsage :: jsnum
  uptime :: string

text \<open>\<open>Partial<SystemStatus>\<close>: every property may be absent.\<close>

record StatusUpdate =
  u_id :: "row_key option"
  u_connectionStatus :: "connection_status option"
  u_lastUpdate :: "int option"
  u_dataPoints :: "nat option"
  u_cpuUsage :: "jsnum option"
  u_memoryUsage :: "jsnum option"
  u_storageUsage :: "jsnum option"
  u_uptime :: "string option"

record AlertSettings =
  a_id :: row_key
  temperatureAlerts :: bool
  phAlerts :: bool
  tdsLevelAlerts :: bool

text \<open>
  The three tables of the shared schema (\<open>sensor_readings\<close>, \<open>system_status\<close>,
  \<open>alert_settings\<close>). \<open>nextKey\<close> is the next key the store generates. The columns
  \<open>timestamp\<close>, \<open>created_at\<close> and \<open>last_update\<close> are declared \<open>defaultNow()\<close>: a row
  inserted without them takes the instant of the insert.
\<close>

record tables =
  sensorReadings :: "SensorReading list"
  systemStatus :: "SystemStatus list"
  alertSettings :: "AlertSettings list"
  nextKey :: nat

text \<open>
  The \<open>DatabaseStorage\<close> instance together with what it reads from its environment:
  \<open>gateway\<close> is \<open>available && db\<close> of \<open>getDatabaseConnection()\<close>, \<open>development\<close> is
  \<open>NODE_ENV === 'development'\<close>, \<open>clock\<close> is \<open>Date.now()\<close>. The store can fail any
  statement: \<open>dbOutcome k\<close> tells whether the \<open>k\<close>-th statement issued succeeds, and
  \<open>dbCount\<close> counts the statements issued. \<open>extResponse k\<close> is what the network does at the
  \<open>k\<close>-th call of \<open>fetchLatestReading\<close>, and \<open>extCalls\<close> counts these calls.
\<close>

record storage =
  lastExternalFetchTime :: int
  databaseAvailable :: bool
  fb_systemStatus :: SystemStatus
  fb_alertSettings :: AlertSettings
  fb_sensorReadings :: "SensorReading list"
  gateway :: bool
  development :: bool
  clock :: int
  db :: tables
  dbOutcome :: "nat \<Rightarrow> bool"
  dbCount :: nat
  extResponse :: "nat \<Rightarrow> http_outcome"
  extCalls :: nat

definition cacheTimeout :: int where
  "cacheTimeout = 10000"

definition dbOk :: "storage \<Rightarrow> bool" where
  "dbOk s = dbOutcome s (dbCount s)"

definition dbTick :: "storage \<Rightarrow> storage" where
  "dbTick s = s\<lparr>dbCount := Suc (dbCount s)\<rparr>"

text \<open>The \<open>catch\<close> blocks: the failed statement has been issued, the flag goes down.\<close>

definition dbFailed :: "storage \<Rightarrow> storage" where
  "dbFailed s = (dbTick s)\<lparr>databaseAvailable := False\<rparr>"

subsection \<open>Queries\<close>

text \<open>
  \<open>orderBy(desc(timestamp)).limit(n)\<close>, \<open>select().from(t).limit(1)\<close> as the first row
  of the table, the inclusive range query in ascending order, and the inserts.
\<close>

definition selectRecent :: "nat \<Rightarrow> tables \<Rightarrow> SensorReading list" where
  "selectRecent n t = take n (rev (sort_key timestamp (sensorReadings t)))"

definition selectRange :: "int \<Rightarrow> int \<Rightarrow> tables \<Rightarrow> SensorReading list" where
  "selectRange startT endT t =
     sort_key timestamp
       (filter (\<lambda>r. startT \<le> timestamp r \<and> timestamp r \<le> endT) (sensorReadings t))"

definition statusRow :: "tables \<Rightarrow> SystemStatus option" where
  "statusRow t = (case systemStatus t of [] \<Rightarrow> None | st # _ \<Rightarrow> Some st)"

definition settingsRow :: "tables \<Rightarrow> AlertSettings option" where
  "settingsRow t = (case alertSettings t of [] \<Rightarrow> None | a # _ \<Rightarrow> Some a)"

text \<open>
  The insert of a reading is refused when one of its values does not fit a \<open>real\<close>
  column; the row it stores and returns holds the values as the columns keep them.
\<close>

definition storable :: "InsertSensorReading \<Rightarrow> bool" where
  "storable v = (realInRange (i_temperature v) \<and> realInRange (i_ph v) \<and> realInRange (i_tdsLevel v))"

definition insertReading :: "InsertSensorReading \<Rightarrow> storage \<Rightarrow> SensorReading \<times> storage" where
  "insertReading v s =
    (let row = \<lparr> r_id = RowId (nextKey (db s)), timestamp = clock s, createdAt = clock s,
                 temperature = asReal (i_temperature v), ph = asReal (i_ph v),
                 tdsLevel = asReal (i_tdsLevel v) \<rparr>
     in (row, s\<lparr>db := (db s)\<lparr>sensorReadings := sensorReadings (db s) @ [row],
                             nextKey := Suc (nextKey (db s))\<rparr>\<rparr>))"

text \<open>\<open>Object.assign(target, update)\<close> and the spread of a partial status.\<close>

definition assignStatus :: "SystemStatus \<Rightarrow> StatusUpdate \<Rightarrow> SystemStatus" where
  "assignStatus st u =
    \<lparr> s_id = (case u_id u of None \<Rightarrow> s_id st | Some v \<Rightarrow> v),
      connectionStatus = (case u_connectionStatus u of None \<Rightarrow> connectionStatus st | Some v \<Rightarrow> v),
      lastUpdate = (case u_lastUpdate u of None \<Rightarrow> lastUpdate st | Some v \<Rightarrow> v),
      dataPoints = (case u_dataPoints u of None \<Rightarrow> dataPoints st | Some v \<Rightarrow> v),
      cpuUsage = (case u_cpuUsage u of None \<Rightarrow> cpuUsage st | Some v \<Rightarrow> v),
      memoryUsage = (case u_memoryUsage u of None \<Rightarrow> memoryUsage st | Some v \<Rightarrow> v),
      storageUsage = (case u_storageUsage u of None \<Rightarrow> storageUsage st | Some v \<Rightarrow> v),
      uptime = (case u_uptime u of None \<Rightarrow> uptime st | Some v \<Rightarrow> v) \<rparr>"

definition defaultStatus :: "row_key \<Rightarrow> int \<Rightarrow> SystemStatus" where
  "defaultStatus k now =
    \<lparr> s_id = k, connectionStatus = Connected, lastUpdate = now, dataPoints = 0,
      cpuUsage = Num 23, memoryUsage = Num 30, storageUsage = Num 26,
      uptime = ''3d 14h 22m'' \<rparr>"

text \<open>
  What the store accepts of a partial status and how it keeps it: the usage figures go
  to \<open>real\<close> columns and \<open>dataPoints\<close> to an \<open>integer\<close> column, and an \<open>id\<close> has to be a
  key of the store's kind that no other row carries.
\<close>

definition statusUpdateInRange :: "StatusUpdate \<Rightarrow> bool" where
  "statusUpdateInRange u =
    ((case u_dataPoints u of None \<Rightarrow> True | Some n \<Rightarrow> int4InRange n)
     \<and> (case u_cpuUsage u of None \<Rightarrow> True | Some v \<Rightarrow> realInRange v)
     \<and> (case u_memoryUsage u of None \<Rightarrow> True | Some v \<Rightarrow> realInRange v)
     \<and> (case u_storageUsage u of None \<Rightarrow> True | Some v \<Rightarrow> realInRange v))"

fun keyWritable :: "row_key option \<Rightarrow> SystemStatus list \<Rightarrow> bool" where
  "keyWritable None others = True"
| "keyWritable (Some (Generated k)) others = (Generated k \<notin> s_id ` set others)"
| "keyWritable (Some FallbackKey) others = False"
| "keyWritable (Some DefaultKey) others = False"

fun bumpKey :: "row_key option \<Rightarrow> nat \<Rightarrow> nat" where
  "bumpKey (Some (Generated k)) n = max n (Suc k)"
| "bumpKey _ n = n"

definition statusUpdateAsStored :: "StatusUpdate \<Rightarrow> StatusUpdate" where
  "statusUpdateAsStored u =
    u\<lparr> u_cpuUsage := map_option asReal (u_cpuUsage u),
       u_memoryUsage := map_option asReal (u_memoryUsage u),
       u_storageUsage := map_option asReal (u_storageUsage u) \<rparr>"

definition statusAsStored :: "SystemStatus \<Rightarrow> SystemStatus" where
  "statusAsStored st =
    st\<lparr> cpuUsage := asReal (cpuUsage st), memoryUsage := asReal (memoryUsage st),
        storageUsage := asReal (storageUsage st) \<rparr>"

definition defaultSettings :: "row_key \<Rightarrow> AlertSettings" where
  "defaultSettings k =
    \<lparr> a_id = k, temperatureAlerts = True, phAlerts = True, tdsLevelAlerts = False \<rparr>"

definition dataPointsUpdate :: "nat \<Rightarrow> StatusUpdate" where
  "dataPointsUpdate n =
    \<lparr> u_id = None, u_connectionStatus = None, u_lastUpdate = None, u_dataPoints = Some n,
      u_cpuUsage = None, u_memoryUsage = None, u_storageUsage = None, u_uptime = None \<rparr>"

definition sampleReading :: "reading_id \<Rightarrow> int \<Rightarrow> SensorReading" where
  "sampleReading k now =
    \<lparr> r_id = k, timestamp = now, createdAt = now,
      temperature = Num (51 / 2), ph = Num (34 / 5), tdsLevel = Num 450 \<rparr>"

definition sampleValues :: InsertSensorReading where
  "sampleValues = \<lparr> i_temperature = Num (51 / 2), i_ph = Num (34 / 5), i_tdsLevel = Num 450 \<rparr>"

section \<open>Storage orchestrator\<close>

subsection \<open>Status and settings\<close>

text \<open>
  \<open>updateSystemStatus\<close>. The row that \<open>update ... where id = current.id\<close> rewrites is
  every row carrying the key of the first row. The insert and the update are refused
  when the values do not fit their columns, which the \<open>catch\<close> block treats like any
  other failure.
\<close>

definition assignFallbackStatus :: "StatusUpdate \<Rightarrow> storage \<Rightarrow> SystemStatus \<times> storage" where
  "assignFallbackStatus u s =
    (let st = (assignStatus (fb_systemStatus s) u)\<lparr>lastUpdate := clock s\<rparr>
     in (st, s\<lparr>fb_systemStatus := st\<rparr>))"

definition updateSystemStatus :: "StatusUpdate \<Rightarrow> storage \<Rightarrow> SystemStatus \<times> storage" where
  "updateSystemStatus statusUpdate s =
    (if \<not> gateway s then assignFallbackStatus statusUpdate s
     else if \<not> dbOk s then assignFallbackStatus statusUpdate (dbFailed s)
     else
       (let s1 = dbTick s in
        case statusRow (db s1) of
          None \<Rightarrow>
            if \<not> (dbOk s1 \<and> statusUpdateInRange statusUpdate
                    \<and> keyWritable (u_id statusUpdate) (systemStatus (db s1)))
            then assignFallbackStatus statusUpdate (dbFailed s1)
            else
              (let newStatus = statusAsStored
                     (assignStatus (defaultStatus (Generated (nextKey (db s1))) (clock s1))
                        statusUpdate)
               in (newStatus,
                   (dbTick s1)\<lparr>db := (db s1)\<lparr>systemStatus := systemStatus (db s1) @ [newStatus],
                       nextKey := bumpKey (u_id statusUpdate) (Suc (nextKey (db s1)))\<rparr>\<rparr>))
        | Some currentStatus \<Rightarrow>
            if \<not> (dbOk s1 \<and> statusUpdateInRange statusUpdate
                    \<and> keyWritable (u_id statusUpdate)
                          (filter (\<lambda>row. s_id row \<noteq> s_id currentStatus) (systemStatus (db s1))))
            then assignFallbackStatus statusUpdate (dbFailed s1)
            else
              (let updatedStatus = (assignStatus currentStatus (statusUpdateAsStored statusUpdate))
                                     \<lparr>lastUpdate := clock s1\<rparr>
               in (updatedStatus,
                   (dbTick s1)\<lparr>db := (db s1)\<lparr>systemStatus :=
                       map (\<lambda>row. if s_id row = s_id currentStatus
                                   then (assignStatus row (statusUpdateAsStored statusUpdate))
                                          \<lparr>lastUpdate := clock s1\<rparr>
                                   else row)
                           (systemStatus (db s1)),
                       nextKey := bumpKey (u_id statusUpdate) (nextKey (db s1))\<rparr>\<rparr>))))"

definition getSystemStatus :: "storage \<Rightarrow> SystemStatus \<times> storage" where
  "getSystemStatus s =
    (if \<not> gateway s then (fb_systemStatus s, s)
     else if \<not> dbOk s then (fb_systemStatus s, dbFailed s)
     else
       (let s1 = (dbTick s)\<lparr>databaseAvailable := True\<rparr>
        in case statusRow (db s1) of
             None \<Rightarrow> (defaultStatus DefaultKey (clock s1), s1)
           | Some status \<Rightarrow> (status, s1)))"

definition getAlertSettings :: "storage \<Rightarrow> AlertSettings \<times> storage" where
  "getAlertSettings s =
    (if \<not> gateway s then (fb_alertSettings s, s)
     else if \<not> dbOk s then (fb_alertSettings s, dbFailed s)
     else
       (let s1 = (dbTick s)\<lparr>databaseAvailable := True\<rparr>
        in case settingsRow (db s1) of
             None \<Rightarrow> (defaultSettings DefaultKey, s1)
           | Some settings \<Rightarrow> (settings, s1)))"



subsection \<open>The priming fetch\<close>

text \<open>
  \<open>fetchFromExternalDatabase\<close> in three parts: the cached read inside the freshness
  window (\<open>cacheRead\<close>), the call of the external service, and the insert with its
  recount (\<open>storeExternal\<close>). Neither \<open>fetchLatestReading\<close> nor \<open>updateSystemStatus\<close>
  throws and the insert has its own \<open>catch\<close>, so the outer \<open>catch\<close> only sees an
  \<open>Inl\<close> of the external call.
\<close>

definition cacheRead :: "storage \<Rightarrow> SensorReading option \<times> storage" where
  "cacheRead s =
    (if gateway s \<and> clock s - lastExternalFetchTime s < cacheTimeout then
       (if dbOk s then
          (case selectRecent 1 (db s) of
             [] \<Rightarrow> (None, dbTick s)
           | latest # _ \<Rightarrow> (Some latest, dbTick s))
        else (None, dbFailed s))
     else (None, s))"

definition storeExternal :: "int \<Rightarrow> ExternalDatabaseReading \<Rightarrow> storage \<Rightarrow> SensorReading \<times> storage" where
  "storeExternal now externalData s =
    (let unstored = \<lparr> r_id = ExternalId now, timestamp = clock s, createdAt = clock s,
                      temperature = x_temperature externalData, ph = x_ph externalData,
                      tdsLevel = x_tdsLevel externalData \<rparr>
     in if gateway s then
          (if dbOk s \<and> storable \<lparr> i_temperature = x_temperature externalData,
                                   i_ph = x_ph externalData,
                                   i_tdsLevel = x_tdsLevel externalData \<rparr> then
             (let ins = insertReading \<lparr> i_temperature = x_temperature externalData,
                                        i_ph = x_ph externalData,
                                        i_tdsLevel = x_tdsLevel externalData \<rparr> (dbTick s);
                  newReading = fst ins;
                  s1 = (snd ins)\<lparr>databaseAvailable := True\<rparr>
              in if dbOk s1 then
                   (newReading,
                    snd (updateSystemStatus (dataPointsUpdate (length (sensorReadings (db s1))))
                           (dbTick s1)))
                 else (unstored, dbFailed s1))
           else (unstored, dbFailed s))
        else (unstored, s))"

definition fetchFromExternalDatabase :: "storage \<Rightarrow> SensorReading option \<times> storage" where
  "fetchFromExternalDatabase s =
    (let now = clock s in
     case cacheRead s of
       (Some latest, s1) \<Rightarrow> (Some latest, s1)
     | (None, s1) \<Rightarrow>
         (let s2 = s1\<lparr>extCalls := Suc (extCalls s1)\<rparr> in
          case fetchLatestReading now (extResponse s1 (extCalls s1)) of
            Inl e \<Rightarrow> (None, s2)
          | Inr None \<Rightarrow> (None, s2)
          | Inr (Some externalData) \<Rightarrow>
              (let stored = storeExternal now externalData (s2\<lparr>lastExternalFetchTime := now\<rparr>)
               in (Some (fst stored), snd stored))))"

subsection \<open>Reads and writes of readings\<close>

text \<open>
  The fallback answer of \<open>getSensorReadings\<close>, which the source writes out twice (for the
  flag being down and for the gateway being unavailable).
\<close>

definition fallbackReadings :: "nat \<Rightarrow> storage \<Rightarrow> SensorReading list \<times> storage" where
  "fallbackReadings limit s =
    (let s1 = (if fb_sensorReadings s = []
               then s\<lparr>fb_sensorReadings := [sampleReading (SampleId (clock s)) (clock s)]\<rparr>
               else s)
     in (take limit (fb_sensorReadings s1), s1))"

text \<open>
  \<open>getSensorReadings\<close> calls itself from its \<open>catch\<close> block; \<open>None\<close> stands for a
  call that never returns. The limit is a natural number
  (\<open>slice(0, limit)\<close> and \<open>.limit(limit)\<close> then agree with \<open>take\<close>).
\<close>

partial_function (option) getSensorReadings :: "nat \<Rightarrow> storage \<Rightarrow> (SensorReading list \<times> storage) option" where
  "getSensorReadings limit s =
    (let s1 = snd (fetchFromExternalDatabase s) in
     if \<not> databaseAvailable s1 then Some (fallbackReadings limit s1)
     else if \<not> gateway s1 then Some (fallbackReadings limit (s1\<lparr>databaseAvailable := False\<rparr>))
     else if \<not> dbOk s1 then getSensorReadings limit (dbFailed s1)
     else
       (let s2 = (dbTick s1)\<lparr>databaseAvailable := True\<rparr>;
            readings = selectRecent limit (db s2)
        in if readings = [] then
             (if development s2 then
                (if \<not> (dbOk s2 \<and> storable sampleValues) then getSensorReadings limit (dbFailed s2)
                 else Some ([fst (insertReading sampleValues (dbTick s2))],
                            snd (insertReading sampleValues (dbTick s2))))
              else
                Some ([sampleReading (FallbackId (clock s2)) (clock s2)],
                      s2\<lparr>fb_sensorReadings := [sampleReading (FallbackId (clock s2)) (clock s2)]\<rparr>))
           else Some (readings, s2)))"

text \<open>
  One pass through the body of \<open>getSensorReadings\<close>: the result it returns (\<open>Inr\<close>), or
  the state in which its \<open>catch\<close> block calls it again (\<open>Inl\<close>).
\<close>

definition readPass :: "nat \<Rightarrow> storage \<Rightarrow> storage + (SensorReading list \<times> storage)" where
  "readPass limit s =
    (let s1 = snd (fetchFromExternalDatabase s) in
     if \<not> databaseAvailable s1 then Inr (fallbackReadings limit s1)
     else if \<not> gateway s1 then Inr (fallbackReadings limit (s1\<lparr>databaseAvailable := False\<rparr>))
     else if \<not> dbOk s1 then Inl (dbFailed s1)
     else
       (let s2 = (dbTick s1)\<lparr>databaseAvailable := True\<rparr>;
            readings = selectRecent limit (db s2)
        in if readings = [] then
             (if development s2 then
                (if \<not> (dbOk s2 \<and> storable sampleValues) then Inl (dbFailed s2)
                 else Inr ([fst (insertReading sampleValues (dbTick s2))],
                           snd (insertReading sampleValues (dbTick s2))))
              else
                Inr ([sampleReading (FallbackId (clock s2)) (clock s2)],
                     s2\<lparr>fb_sensorReadings := [sampleReading (FallbackId (clock s2)) (clock s2)]\<rparr>))
           else Inr (readings, s2)))"

text \<open>
  A bound on the passes a call can still make: a pass that follows a failure starts
  with the flag down, and the flag comes up again only with one more stored reading
  whose count the \<open>integer\<close> column takes.
\<close>

definition retryBudget :: "storage \<Rightarrow> nat" where
  "retryBudget s =
     2 * (2 ^ 31 - length (sensorReadings (db s))) + (if databaseAvailable s then 1 else 0)"

text \<open>
  \<open>getSensorReadingsByTimeRange\<close>, given the instants that \<open>new Date(startTime)\<close> and
  \<open>new Date(endTime)\<close> denote.
\<close>

definition getSensorReadingsByTimeRange :: "int \<Rightarrow> int \<Rightarrow> storage \<Rightarrow> SensorReading list \<times> storage" where
  "getSensorReadingsByTimeRange startT endT s =
    (let s1 = snd (fetchFromExternalDatabase s) in
     if \<not> gateway s1 then (fb_sensorReadings s1, s1)
     else if \<not> dbOk s1 then (fb_sensorReadings s1, dbFailed s1)
     else (selectRange startT endT (db s1), dbTick s1))"

definition memoryReading :: "InsertSensorReading \<Rightarrow> storage \<Rightarrow> SensorReading \<times> storage" where
  "memoryReading v s =
    (let r = \<lparr> r_id = MemoryId (clock s), timestamp = clock s, createdAt = clock s,
               temperature = i_temperature v, ph = i_ph v, tdsLevel = i_tdsLevel v \<rparr>
     in (r, s\<lparr>fb_sensorReadings := r # fb_sensorReadings s\<rparr>))"

definition createSensorReading :: "InsertSensorReading \<Rightarrow> storage \<Rightarrow> SensorReading \<times> storage" where
  "createSensorReading insertReading_v s =
    (if \<not> gateway s then memoryReading insertReading_v s
     else if \<not> (dbOk s \<and> storable insertReading_v) then memoryReading insertReading_v (dbFailed s)
     else
       (let ins = insertReading insertReading_v (dbTick s);
            r = fst ins;
            s1 = snd ins
        in if \<not> dbOk s1 then memoryReading insertReading_v (dbFailed s1)
           else (r, snd (updateSystemStatus (dataPointsUpdate (length (sensorReadings (db s1))))
                           (dbTick s1)))))"

subsection \<open>Construction\<close>

text \<open>
  The field initialisers of the class and \<open>initializeDefaults\<close>, which the constructor
  starts. \<open>newDatabaseStorage\<close> is the instance once \<open>initializeDefaults\<close> has settled;
  \<open>elapse\<close> lets time pass between two requests.
\<close>

definition emptyTables :: tables where
  "emptyTables = \<lparr> sensorReadings = [], systemStatus = [], alertSettings = [], nextKey = 0 \<rparr>"

definition fieldInitialisers ::
  "bool \<Rightarrow> bool \<Rightarrow> int \<Rightarrow> tables \<Rightarrow> (nat \<Rightarrow> bool) \<Rightarrow> (nat \<Rightarrow> http_outcome) \<Rightarrow> storage" where
  "fieldInitialisers g dev now t outcomes responses =
    \<lparr> lastExternalFetchTime = 0, databaseAvailable = True,
      fb_systemStatus = defaultStatus FallbackKey now,
      fb_alertSettings = defaultSettings FallbackKey,
      fb_sensorReadings = [],
      gateway = g, development = dev, clock = now, db = t,
      dbOutcome = outcomes, dbCount = 0, extResponse = responses, extCalls = 0 \<rparr>"

definition ensureStatusRow :: "storage \<Rightarrow> storage option" where
  "ensureStatusRow s =
    (if systemStatus (db s) = [] then
       (if dbOk s then
          Some ((dbTick s)\<lparr>db := (db s)\<lparr>systemStatus :=
                    [statusAsStored (defaultStatus (Generated (nextKey (db s))) (clock s))],
                  nextKey := Suc (nextKey (db s))\<rparr>\<rparr>)
        else None)
     else Some s)"

definition ensureSettingsRow :: "storage \<Rightarrow> storage option" where
  "ensureSettingsRow s =
    (if alertSettings (db s) = [] then
       (if dbOk s then
          Some ((dbTick s)\<lparr>db := (db s)\<lparr>alertSettings :=
                    [defaultSettings (Generated (nextKey (db s)))],
                  nextKey := Suc (nextKey (db s))\<rparr>\<rparr>)
        else None)
     else Some s)"

definition initializeDefaults :: "storage \<Rightarrow> storage" where
  "initializeDefaults s =
    (if \<not> gateway s then s\<lparr>databaseAvailable := False\<rparr>
     else if \<not> dbOk s then dbFailed s
     else if \<not> dbOk (dbTick s) then dbFailed (dbTick s)
     else
       (case ensureStatusRow (dbTick (dbTick s)) of
          None \<Rightarrow> dbFailed (dbTick (dbTick s))
        | Some s3 \<Rightarrow>
            if \<not> dbOk s3 then dbFailed s3
            else
              (case ensureSettingsRow (dbTick s3) of
                 None \<Rightarrow> dbFailed (dbTick s3)
               | Some s5 \<Rightarrow> s5\<lparr>databaseAvailable := True\<rparr>)))"

definition newDatabaseStorage ::
  "bool \<Rightarrow> bool \<Rightarrow> int \<Rightarrow> tables \<Rightarrow> (nat \<Rightarrow> bool) \<Rightarrow> (nat \<Rightarrow> http_outcome) \<Rightarrow> storage" where
  "newDatabaseStorage g dev now t outcomes responses =
     initializeDefaults (fieldInitialisers g dev now t outcomes responses)"

definition elapse :: "int \<Rightarrow> storage \<Rightarrow> storage" where
  "elapse ms s = s\<lparr>clock := clock s + ms\<rparr>"

section \<open>Example configurations\<close>

text \<open>
  Concrete instances used to evaluate the operations: an instant, an upstream response
  for a hydroponic device, and storages in a given environment.
\<close>

definition T0 :: int where
  "T0 = 1700000000000"

definition hydroEnvelope :: envelope where
  "hydroEnvelope =
    \<lparr> device_code = Some ''HZ1'',
      reading = Some \<lparr> encoded_data = Some ''02BC07D000F0'', r_timestamp = None \<rparr>,
      e_id = None, e__id = None, e_reading_id = None,
      e_timestamp = None, e_created_at = None, e_time = None \<rparr>"

definition hydroResponse :: http_outcome where
  "hydroResponse = Response True (Some ''application/json; charset=utf-8'') (Json hydroEnvelope)"

definition hydroReading :: "int \<Rightarrow> ExternalDatabaseReading" where
  "hydroReading now =
    \<lparr> x_id = FromInstant now, x_temperature = Num 24, x_ph = Num 7, x_tdsLevel = Num 200,
      x_timestamp = FromInstant now \<rparr>"

text \<open>
  No store is configured and the upstream answers. \<open>offlineFirstRead\<close> is what the first
  \<open>getSensorReadings(50)\<close> returns, and the second read comes a second later.
\<close>

definition offlineStorage :: storage where
  "offlineStorage = newDatabaseStorage False False T0 emptyTables (\<lambda>k. True) (\<lambda>k. hydroResponse)"

definition offlineFirstRead :: "SensorReading list \<times> storage" where
  "offlineFirstRead = fallbackReadings 50 (snd (fetchFromExternalDatabase offlineStorage))"

definition offlineSecondRead :: storage where
  "offlineSecondRead = elapse 1000 (snd offlineFirstRead)"

text \<open>
  The store refuses the first insert and works afterwards, so that one second after a
  successful external fetch the store is still empty.
\<close>

definition emptyWindowStorage :: storage where
  "emptyWindowStorage = newDatabaseStorage True False T0 emptyTables (\<lambda>k. k \<noteq> 5) (\<lambda>k. hydroResponse)"

definition emptyWindowFirstRead :: "SensorReading list \<times> storage" where
  "emptyWindowFirstRead = fallbackReadings 50 (snd (fetchFromExternalDatabase emptyWindowStorage))"

definition emptyWindowSecondRead :: storage where
  "emptyWindowSecondRead = elapse 1000 (snd emptyWindowFirstRead)"

text \<open>
  The first read fetches and stores a reading. In the second read, a second later, the
  query fails and so does the cached read of the pass that follows.
\<close>

definition retryStorage :: storage where
  "retryStorage = newDatabaseStorage True False T0 emptyTables (\<lambda>k. k \<noteq> 11 \<and> k \<noteq> 12)
                    (\<lambda>k. hydroResponse)"

definition retryFirstRead :: "SensorReading list \<times> storage" where
  "retryFirstRead =
     (selectRecent 50 (db (snd (fetchFromExternalDatabase retryStorage))),
      (dbTick (snd (fetchFromExternalDatabase retryStorage)))\<lparr>databaseAvailable := True\<rparr>)"

definition retrySecondRead :: storage where
  "retrySecondRead = elapse 1000 (snd retryFirstRead)"

text \<open>
  The store fails one statement (the cached read of the second request) and the
  upstream answers the first call only; three reads one second apart.
\<close>

definition flakyStorage :: storage where
  "flakyStorage = newDatabaseStorage True False T0 emptyTables (\<lambda>k. k \<noteq> 10)
                    (\<lambda>k. if k = 0 then hydroResponse else FetchRejected)"

definition flakyRead1 :: storage where
  "flakyRead1 = snd (getSensorReadingsByTimeRange 0 T0 flakyStorage)"

definition flakyRead2 :: storage where
  "flakyRead2 = snd (getSensorReadingsByTimeRange 0 T0 (elapse 1000 flakyRead1))"

definition flakyRead3 :: storage where
  "flakyRead3 = snd (getSensorReadingsByTimeRange 0 T0 (elapse 1000 flakyRead2))"

text \<open>A healthy store with an upstream that never answers.\<close>

definition unreachableUpstream :: storage where
  "unreachableUpstream = newDatabaseStorage True False T0 emptyTables (\<lambda>k. True) (\<lambda>k. FetchRejected)"

text \<open>An empty healthy store in development and in production.\<close>

definition devStorage :: storage where
  "devStorage = newDatabaseStorage True True T0 emptyTables (\<lambda>k. True) (\<lambda>k. FetchRejected)"

definition prodStorage :: storage where
  "prodStorage = newDatabaseStorage True False T0 emptyTables (\<lambda>k. True) (\<lambda>k. FetchRejected)"

text \<open>What \<open>getSensorReadings(50)\<close> returns on the empty store in development.\<close>

definition devSeedRead :: "SensorReading list \<times> storage" where
  "devSeedRead =
     ([fst (insertReading sampleValues
              (dbTick ((dbTick (snd (fetchFromExternalDatabase devStorage)))
                         \<lparr>databaseAvailable := True\<rparr>)))],
      snd (insertReading sampleValues
             (dbTick ((dbTick (snd (fetchFromExternalDatabase devStorage)))
                        \<lparr>databaseAvailable := True\<rparr>))))"

text \<open>The store fails a single statement, the count that follows the first insert.\<close>

definition countFailStorage :: storage where
  "countFailStorage = newDatabaseStorage True False T0 emptyTables (\<lambda>k. k \<noteq> 6) (\<lambda>k. FetchRejected)"

text \<open>Three stored readings, out of order.\<close>

definition threeReadings :: tables where
  "threeReadings =
    \<lparr> sensorReadings = [sampleReading (RowId 0) 10, sampleReading (RowId 1) 30,
                        sampleReading (RowId 2) 20],
      systemStatus = [], alertSettings = [], nextKey = 3 \<rparr>"

definition threeRowStorage :: storage where
  "threeRowStorage = newDatabaseStorage True False T0 threeReadings (\<lambda>k. True) (\<lambda>k. FetchRejected)"







text \<open>The store fails a single statement, the status query right after the set-up.\<close>

definition blipStorage :: storage where
  "blipStorage = newDatabaseStorage True False T0 emptyTables (\<lambda>k. k \<noteq> 5) (\<lambda>k. FetchRejected)"

definition blipDegraded :: storage where
  "blipDegraded = snd (getSystemStatus blipStorage)"

section \<open>Properties of the hex decoder\<close>

lemma digitValue_lt16: "digitValue c < 16"
  by (auto simp: digitValue_def hexDigit_def Let_def)

lemma hexDigit_not_space: "isHexDigit c \<Longrightarrow> \<not> isStrWhiteSpace c"
  by (auto simp: isHexDigit_def hexDigit_def isStrWhiteSpace_def Let_def split: if_splits)

lemma hexDigit_not_sign:
  "isHexDigit c \<Longrightarrow> c \<noteq> CHR ''-'' \<and> c \<noteq> CHR ''+'' \<and> c \<noteq> CHR ''x'' \<and> c \<noteq> CHR ''X''"
  by (auto simp: isHexDigit_def hexDigit_def Let_def)

lemma parseInt16_four:
  assumes "isHexDigit a" "isHexDigit b" "isHexDigit c" "isHexDigit d"
  shows "parseInt16 [a, b, c, d] = Num (of_nat (hex16 [a, b, c, d]))"
  using assms hexDigit_not_space [of a] hexDigit_not_sign [of a] hexDigit_not_sign [of b]
  by (simp add: parseInt16_def radix16_def Let_def)

lemma hex16_bound: "hex16 z < 65536"
proof (cases z rule: hex16.cases)
  case (1 a b c d)
  then show ?thesis
    using digitValue_lt16 [of a] digitValue_lt16 [of b] digitValue_lt16 [of c] digitValue_lt16 [of d]
    by simp
qed simp_all

lemma chunk_hex:
  assumes "start + 4 \<le> length hexString" "list_all isHexDigit (substr hexString start 4)"
  shows "chunk hexString start = Num (of_nat (hex16 (substr hexString start 4)))"
proof -
  have "length (substr hexString start 4) = 4"
    using assms(1) by (simp add: substr_def)
  then obtain a b c d where z: "substr hexString start 4 = [a, b, c, d]"
    by (auto simp: length_Suc_conv numeral_eq_Suc)
  with assms(2) show ?thesis
    by (simp add: chunk_def parseInt16_four del: hex16.simps)
qed

lemma chunk_beyond: "length hexString \<le> start \<Longrightarrow> chunk hexString start = NaN"
  by (simp add: chunk_def substr_def parseInt16_def)

lemma HZ_exclusive:
  "startsWith deviceCode ''HZ'' \<Longrightarrow>
   \<not> startsWith deviceCode ''CZ'' \<and> \<not> startsWith deviceCode ''MZ'' \<and>
   \<not> startsWith deviceCode ''SZ'' \<and> \<not> startsWith deviceCode ''GZ''"
  by (auto simp: startsWith_def)

text \<open>
  C6. For a device code starting with \<open>HZ\<close> and a payload whose first twelve characters
  are hexadecimal digits, \<open>decodeHexData\<close> returns exactly the three properties
  \<open>ph\<close>, \<open>tdsLevel\<close>, \<open>temperature\<close>, computed from the 4-character chunks at offsets
  0, 4 and 8, each read as an unsigned 16-bit integer and divided by 100, 10 and 10.
\<close>

theorem decode_HZ:
  assumes "startsWith deviceCode ''HZ''"
    and "12 \<le> length hexString"
    and "list_all isHexDigit (take 12 hexString)"
  shows "decodeHexData hexString deviceCode =
           Some [(''ph'', Num (of_nat (hex16 (substr hexString 0 4)) / 100)),
                 (''tdsLevel'', Num (of_nat (hex16 (substr hexString 4 4)) / 10)),
                 (''temperature'', Num (of_nat (hex16 (substr hexString 8 4)) / 10))]
         \<and> hex16 (substr hexString 0 4) < 2 ^ 16
         \<and> hex16 (substr hexString 4 4) < 2 ^ 16
         \<and> hex16 (substr hexString 8 4) < 2 ^ 16"
proof -
  have all: "\<forall>c \<in> set (take 12 hexString). isHexDigit c"
    using assms(3) by (simp add: list_all_iff)
  have sub: "set (substr hexString k 4) \<subseteq> set (take 12 hexString)" if "k + 4 \<le> 12" for k
  proof -
    have "substr hexString k 4 = take 4 (drop k (take 12 hexString))"
      using that by (simp add: substr_def drop_take)
    then show ?thesis
      by (metis set_drop_subset set_take_subset subset_trans)
  qed
  have c0: "chunk hexString 0 = Num (of_nat (hex16 (substr hexString 0 4)))"
    using assms(2) all sub [of 0] by (intro chunk_hex) (auto simp: list_all_iff)
  have c4: "chunk hexString 4 = Num (of_nat (hex16 (substr hexString 4 4)))"
    using assms(2) all sub [of 4] by (intro chunk_hex) (auto simp: list_all_iff)
  have c8: "chunk hexString 8 = Num (of_nat (hex16 (substr hexString 8 4)))"
    using assms(2) all sub [of 8] by (intro chunk_hex) (auto simp: list_all_iff)
  show ?thesis
    using HZ_exclusive [OF assms(1)] assms(1) hex16_bound
    by (simp add: decodeHexData_def c0 c4 c8)
qed

theorem decode_HZ_witness:
  "startsWith ''HZ1'' ''HZ'' \<and> 12 \<le> length ''02BC07D000F0''
   \<and> list_all isHexDigit (take 12 ''02BC07D000F0'')
   \<and> decodeHexData ''02BC07D000F0'' ''HZ1'' =
        Some [(''ph'', Num 7), (''tdsLevel'', Num 200), (''temperature'', Num 24)]"
proof -
  have a: "startsWith ''HZ1'' ''HZ''" by (simp add: startsWith_def)
  have b: "12 \<le> length ''02BC07D000F0''" by simp
  have c: "list_all isHexDigit (take 12 ''02BC07D000F0'')"
    by (simp add: isHexDigit_def hexDigit_def)
  show ?thesis
    using a b c decode_HZ [OF a b c]
    by (simp add: substr_def digitValue_def hexDigit_def)
qed

text \<open>
  C7, as stated, fails: a malformed payload is not answered with \<open>null\<close>. With the
  prefix \<open>HZ\<close> and the four characters \<open>02BC\<close> the decoder returns an object whose
  \<open>tdsLevel\<close> and \<open>temperature\<close> are \<open>NaN\<close>; with a first chunk that is not
  hexadecimal it returns an object whose \<open>ph\<close> is \<open>NaN\<close>; and with sixteen characters
  it returns the three fields of the first twelve.
\<close>

theorem decode_short_counterexample:
  "decodeHexData ''02BC'' ''HZ1'' =
     Some [(''ph'', Num 7), (''tdsLevel'', NaN), (''temperature'', NaN)]
   \<and> decodeHexData ''ZZZZ07D000F0'' ''HZ1'' =
     Some [(''ph'', NaN), (''tdsLevel'', Num 200), (''temperature'', Num 24)]
   \<and> decodeHexData ''02BC07D000F0FFFF'' ''HZ1'' =
     Some [(''ph'', Num 7), (''tdsLevel'', Num 200), (''temperature'', Num 24)]"
  by (simp add: decodeHexData_def startsWith_def chunk_def substr_def parseInt16_def
      isStrWhiteSpace_def isHexDigit_def hexDigit_def radix16_def digitValue_def)

lemma jsdiv_NaN_iff: "(jsdiv v d = NaN) = (v = NaN)"
  by (cases v) simp_all

lemma parseInt16_NaN_iff: "(parseInt16 str = NaN) = (digitRun str = [])"
  by (simp add: parseInt16_def digitRun_def Let_def)

lemma chunk_NaN_iff: "(chunk hexString start = NaN) = (digitRun (substr hexString start 4) = [])"
  by (simp add: chunk_def parseInt16_NaN_iff)

lemma nth_fields:
  assumes "i < length vs"
    and "vs = [v0, v1, v2] \<or> vs = [v0, v1, v2, v3]"
    and "(snd v0 = NaN) = (f 0 = NaN)" and "(snd v1 = NaN) = (f 4 = NaN)"
    and "(snd v2 = NaN) = (f 8 = NaN)" and "(snd v3 = NaN) = (f 12 = NaN)"
  shows "(snd (vs ! i) = NaN) = (f (4 * i) = NaN)"
proof -
  from assms(1,2) consider "i = 0" | "i = 1" | "i = 2" | "i = 3" "vs = [v0, v1, v2, v3]"
    by (auto simp: less_Suc_eq)
  then show ?thesis
    using assms(2-) by cases auto
qed

lemma decode_fields:
  assumes "knownFamily deviceCode"
  shows "\<exists>d. decodeHexData hexString deviceCode = Some d
           \<and> length d = (if startsWith deviceCode ''CZ'' then 4 else 3)
           \<and> (\<forall>i<length d. (snd (d ! i) = NaN) = (chunk hexString (4 * i) = NaN))"
proof -
  have "decodeHexData hexString deviceCode \<noteq> None"
    using assms by (auto simp: decodeHexData_def knownFamily_def)
  then obtain d where d: "decodeHexData hexString deviceCode = Some d"
    by blast
  let ?c = "chunk hexString"
  have shape: "(startsWith deviceCode ''CZ'' \<and>
        d = [(''ph'', jsdiv (?c 0) 100), (''moisture'', jsdiv (?c 4) 10),
             (''ec'', jsdiv (?c 8) 100), (''temperature'', jsdiv (?c 12) 10)])
     \<or> (\<not> startsWith deviceCode ''CZ'' \<and>
        (d = [(''ph'', jsdiv (?c 0) 100), (''ec'', jsdiv (?c 4) 100),
              (''temperature'', jsdiv (?c 8) 10)]
         \<or> d = [(''temperature'', jsdiv (?c 0) 10), (''humidity'', jsdiv (?c 4) 10),
                 (''light'', ?c 8)]
         \<or> d = [(''ph'', jsdiv (?c 0) 100), (''tdsLevel'', jsdiv (?c 4) 10),
                 (''temperature'', jsdiv (?c 8) 10)]))"
    using d by (auto simp: decodeHexData_def split: if_splits)
  have len: "length d = (if startsWith deviceCode ''CZ'' then 4 else 3)"
    using shape by auto
  have "(snd (d ! i) = NaN) = (?c (4 * i) = NaN)" if "i < length d" for i
    using shape
  proof (elim disjE conjE)
    assume "d = [(''ph'', jsdiv (?c 0) 100), (''moisture'', jsdiv (?c 4) 10),
             (''ec'', jsdiv (?c 8) 100), (''temperature'', jsdiv (?c 12) 10)]"
    then show ?thesis
      using that by (intro nth_fields [where ?v3.0 = "(''temperature'', jsdiv (?c 12) 10)"])
        (auto simp: jsdiv_NaN_iff)
  next
    assume "d = [(''ph'', jsdiv (?c 0) 100), (''ec'', jsdiv (?c 4) 100),
              (''temperature'', jsdiv (?c 8) 10)]"
    then show ?thesis
      using that by (intro nth_fields [where ?v3.0 = "(''none'', ?c 12)"])
        (auto simp: jsdiv_NaN_iff)
  next
    assume "d = [(''temperature'', jsdiv (?c 0) 10), (''humidity'', jsdiv (?c 4) 10),
                 (''light'', ?c 8)]"
    then show ?thesis
      using that by (intro nth_fields [where ?v3.0 = "(''none'', ?c 12)"])
        (auto simp: jsdiv_NaN_iff)
  next
    assume "d = [(''ph'', jsdiv (?c 0) 100), (''tdsLevel'', jsdiv (?c 4) 10),
                 (''temperature'', jsdiv (?c 8) 10)]"
    then show ?thesis
      using that by (intro nth_fields [where ?v3.0 = "(''none'', ?c 12)"])
        (auto simp: jsdiv_NaN_iff)
  qed
  with d len show ?thesis by blast
qed

text \<open>
  C7, amended. \<open>decodeHexData\<close> returns \<open>null\<close> exactly when the device code starts
  with none of \<open>CZ\<close>, \<open>MZ\<close>, \<open>SZ\<close>, \<open>GZ\<close>, \<open>HZ\<close>. For a known family a malformed
  payload is not rejected: the object is returned with all its properties (four for
  \<open>CZ\<close>, three otherwise), and the property at position \<open>i\<close> is \<open>NaN\<close> exactly when the
  chunk at offset \<open>4 * i\<close> is. A chunk is \<open>NaN\<close> exactly when \<open>parseInt\<close> finds no
  hexadecimal digit at its start after the white space, the sign and the \<open>0x\<close> that it
  skips, and so whenever the payload ends at or before the chunk's offset.
\<close>

theorem decode_null_iff_unknown:
  "(decodeHexData hexString deviceCode = None) = (\<not> knownFamily deviceCode)
   \<and> (knownFamily deviceCode \<longrightarrow>
        (\<exists>d. decodeHexData hexString deviceCode = Some d
           \<and> length d = (if startsWith deviceCode ''CZ'' then 4 else 3)
           \<and> (\<forall>i<length d. (snd (d ! i) = NaN) = (chunk hexString (4 * i) = NaN))))
   \<and> (chunk hexString start = NaN) = (digitRun (substr hexString start 4) = [])
   \<and> (length hexString \<le> start \<longrightarrow> chunk hexString start = NaN)"
proof -
  have a: "(decodeHexData hexString deviceCode = None) = (\<not> knownFamily deviceCode)"
    by (simp add: decodeHexData_def knownFamily_def)
  have b: "knownFamily deviceCode \<longrightarrow>
        (\<exists>d. decodeHexData hexString deviceCode = Some d
           \<and> length d = (if startsWith deviceCode ''CZ'' then 4 else 3)
           \<and> (\<forall>i<length d. (snd (d ! i) = NaN) = (chunk hexString (4 * i) = NaN)))"
    using decode_fields by blast
  have c: "(chunk hexString start = NaN) = (digitRun (substr hexString start 4) = [])"
    by (rule chunk_NaN_iff)
  have d: "length hexString \<le> start \<longrightarrow> chunk hexString start = NaN"
    by (simp add: chunk_beyond)
  from a b c d show ?thesis
    by (simp only: simp_thms)
qed

theorem decode_null_iff_unknown_witness:
  "decodeHexData ''02BC07D000F0'' ''XX1'' = None
   \<and> knownFamily ''CZ3'' \<and> length ''02BC07D000F0'' \<le> 12
   \<and> (\<exists>d. decodeHexData ''02BC07D000F0'' ''CZ3'' = Some d \<and> length d = 4
          \<and> snd (d ! 2) \<noteq> NaN \<and> snd (d ! 3) = NaN)
   \<and> decodeHexData ''02BC-00A 0C8'' ''HZ1'' =
        Some [(''ph'', Num 7), (''tdsLevel'', Num (- 1)), (''temperature'', Num 20)]"
proof -
  have k: "knownFamily ''CZ3''" "\<not> knownFamily ''XX1''" "startsWith ''CZ3'' ''CZ''"
    by (simp_all add: knownFamily_def startsWith_def)
  have r: "digitRun (substr ''02BC07D000F0'' 8 4) \<noteq> []"
    by (simp add: digitRun_def substr_def isStrWhiteSpace_def isHexDigit_def hexDigit_def)
  have e: "decodeHexData ''02BC-00A 0C8'' ''HZ1'' =
        Some [(''ph'', Num 7), (''tdsLevel'', Num (- 1)), (''temperature'', Num 20)]"
    by (simp add: decodeHexData_def startsWith_def chunk_def substr_def parseInt16_def
        isStrWhiteSpace_def isHexDigit_def hexDigit_def radix16_def digitValue_def)
  have n: "decodeHexData ''02BC07D000F0'' ''XX1'' = None"
    using decode_null_iff_unknown [of "''02BC07D000F0''" "''XX1''"] k by simp
  have f: "knownFamily ''CZ3'' \<longrightarrow>
        (\<exists>d. decodeHexData ''02BC07D000F0'' ''CZ3'' = Some d
           \<and> length d = (if startsWith ''CZ3'' ''CZ'' then 4 else 3)
           \<and> (\<forall>i<length d. (snd (d ! i) = NaN) = (chunk ''02BC07D000F0'' (4 * i) = NaN)))"
    using decode_null_iff_unknown [of "''02BC07D000F0''" "''CZ3''"] by blast
  then obtain d where d: "decodeHexData ''02BC07D000F0'' ''CZ3'' = Some d" "length d = 4"
    "\<forall>i<length d. (snd (d ! i) = NaN) = (chunk ''02BC07D000F0'' (4 * i) = NaN)"
    using k by auto
  have g: "(chunk ''02BC07D000F0'' 8 = NaN) = (digitRun (substr ''02BC07D000F0'' 8 4) = [])"
    using decode_null_iff_unknown [of "''02BC07D000F0''" "''CZ3''" 8] by blast
  have c2: "chunk ''02BC07D000F0'' (4 * 2) \<noteq> NaN"
    using g r by simp
  have h: "length ''02BC07D000F0'' \<le> 12 \<longrightarrow> chunk ''02BC07D000F0'' 12 = NaN"
    using decode_null_iff_unknown [of "''02BC07D000F0''" "''CZ3''" 12] by blast
  have c3: "chunk ''02BC07D000F0'' (4 * 3) = NaN"
    using h by simp
  have "snd (d ! 2) \<noteq> NaN \<and> snd (d ! 3) = NaN"
    using d(2,3) c2 c3 by simp
  with d k n e show ?thesis
    by auto
qed

section \<open>Properties of the external fetcher\<close>

lemma hydro_decode:
  "decodeHexData ''02BC07D000F0'' ''HZ1'' =
     Some [(''ph'', Num 7), (''tdsLevel'', Num 200), (''temperature'', Num 24)]"
  by (simp add: decodeHexData_def startsWith_def chunk_def substr_def parseInt16_def
      isStrWhiteSpace_def isHexDigit_def hexDigit_def radix16_def digitValue_def)

lemma hydro_fetch: "fetchLatestReading now hydroResponse = Inr (Some (hydroReading now))"
  by (simp add: fetchLatestReading_def fetchLatestReading_try_def hydroResponse_def
      hydroEnvelope_def hydro_decode adapt_def str_or_def num_or_def hydroReading_def)

lemma rejected_fetch: "fetchLatestReading now FetchRejected = Inr None"
  by (simp add: fetchLatestReading_def fetchLatestReading_try_def)

lemma adapt_formed:
  "x_temperature (adapt now data d) \<noteq> NaN \<and> x_ph (adapt now data d) \<noteq> NaN
   \<and> x_tdsLevel (adapt now data d) \<noteq> NaN"
proof -
  have n: "the_num (num_or a (Some (Num 0))) \<noteq> NaN" for a
    by (cases a rule: num_truthy.cases) (simp_all add: num_or_def)
  have m: "the_num (num_or a (num_or b (Some (Num 0)))) \<noteq> NaN" for a b
    using n [of b] by (cases a rule: num_truthy.cases) (simp_all add: num_or_def)
  show ?thesis
    by (simp add: adapt_def n m)
qed

lemma try_formed:
  "fetchLatestReading_try now outcome = Inr (Some x) \<Longrightarrow> fullyFormed x"
  using adapt_formed
  by (auto simp: fetchLatestReading_try_def fullyFormed_def Let_def
      split: http_outcome.splits http_body.splits option.splits if_splits)

text \<open>
  C8. \<open>fetchLatestReading\<close> never hands an error to its caller: for every outcome of the
  network call the result is a value, either \<open>null\<close> or a reading whose
  \<open>temperature\<close>, \<open>ph\<close> and \<open>tdsLevel\<close> are numbers. A rejected \<open>fetch\<close> (which
  includes the timeout), a status that is not OK, a missing or non-JSON content type,
  a body that is not JSON, a missing \<open>encoded_data\<close> and a \<open>null\<close> from the decoder
  all give \<open>null\<close>.
\<close>

theorem fetchLatestReading_absorbs:
  "(\<exists>r. fetchLatestReading now outcome = Inr r \<and> (\<forall>x. r = Some x \<longrightarrow> fullyFormed x))
   \<and> fetchLatestReading now FetchRejected = Inr None
   \<and> fetchLatestReading now (Response False contentType body) = Inr None
   \<and> fetchLatestReading now (Response ok None body) = Inr None
   \<and> (\<not> str_includes ct ''application/json'' \<longrightarrow>
        fetchLatestReading now (Response ok (Some ct) body) = Inr None)
   \<and> fetchLatestReading now (Response ok contentType NotJson) = Inr None
   \<and> ((case reading data of None \<Rightarrow> None | Some r \<Rightarrow> encoded_data r) = None \<longrightarrow>
        fetchLatestReading now (Response ok contentType (Json data)) = Inr None)
   \<and> (reading data = Some rp \<and> encoded_data rp = Some hexString
        \<and> decodeHexData hexString (case str_or (device_code data) (Some ''UNKNOWN'') of
                                     Some s \<Rightarrow> s | None \<Rightarrow> ''UNKNOWN'') = None \<longrightarrow>
        fetchLatestReading now (Response ok contentType (Json data)) = Inr None)"
proof -
  have total: "\<exists>r. fetchLatestReading now outcome = Inr r \<and> (\<forall>x. r = Some x \<longrightarrow> fullyFormed x)"
  proof (cases "fetchLatestReading_try now outcome")
    case (Inl e)
    then show ?thesis by (simp add: fetchLatestReading_def)
  next
    case (Inr r)
    then show ?thesis
      using try_formed [of now outcome] by (simp add: fetchLatestReading_def)
  qed
  have rest: "fetchLatestReading now FetchRejected = Inr None"
    "fetchLatestReading now (Response False contentType body) = Inr None"
    "fetchLatestReading now (Response ok None body) = Inr None"
    "\<not> str_includes ct ''application/json'' \<longrightarrow>
        fetchLatestReading now (Response ok (Some ct) body) = Inr None"
    "fetchLatestReading now (Response ok contentType NotJson) = Inr None"
    by (auto simp: fetchLatestReading_def fetchLatestReading_try_def split: option.splits)
  have miss: "(case reading data of None \<Rightarrow> None | Some r \<Rightarrow> encoded_data r) = None \<longrightarrow>
        fetchLatestReading now (Response ok contentType (Json data)) = Inr None"
    by (auto simp: fetchLatestReading_def fetchLatestReading_try_def split: option.splits)
  have dec: "reading data = Some rp \<and> encoded_data rp = Some hexString
        \<and> decodeHexData hexString (case str_or (device_code data) (Some ''UNKNOWN'') of
                                     Some s \<Rightarrow> s | None \<Rightarrow> ''UNKNOWN'') = None \<longrightarrow>
        fetchLatestReading now (Response ok contentType (Json data)) = Inr None"
    by (auto simp: fetchLatestReading_def fetchLatestReading_try_def Let_def split: option.splits)
  from total rest miss dec show ?thesis by blast
qed

theorem fetchLatestReading_absorbs_witness:
  "fetchLatestReading T0 hydroResponse = Inr (Some (hydroReading T0))
   \<and> fullyFormed (hydroReading T0)
   \<and> \<not> str_includes ''text/html'' ''application/json''
   \<and> fetchLatestReading T0 (Response True (Some ''text/html'') (Json hydroEnvelope)) = Inr None
   \<and> fetchLatestReading T0 FetchRejected = Inr None"
proof -
  have n: "\<not> str_includes ''text/html'' ''application/json''"
    by simp
  show ?thesis
    using fetchLatestReading_absorbs [where now = T0 and outcome = hydroResponse and ok = True
        and ct = "''text/html''" and body = "Json hydroEnvelope"]
      hydro_fetch [of T0] n
    by simp
qed

section \<open>Properties of the orchestrator\<close>

subsection \<open>Values in the store's columns\<close>

lemma floorLog_numeral [simp]:
  "floorLog (numeral k) b a =
    (if b \<le> a then floorLog (pred_numeral k) b (a / b) + 1
     else if a < 1 then floorLog (pred_numeral k) b (a * b) - 1
     else 0)"
  by (simp add: numeral_eq_Suc)

lemma shortestDecimal_numeral [simp]:
  "shortestDecimal (numeral k) m f =
    (if nearestFloat32 (below m f) = f \<and> nearestFloat32 (above m f) = f then closer m f
     else if nearestFloat32 (below m f) = f then below m f
     else if nearestFloat32 (above m f) = f then above m f
     else shortestDecimal (pred_numeral k) (m - 1) f)"
  by (simp add: numeral_eq_Suc)

lemma floor_rat_numeral [simp]:
  "\<lfloor>numeral a / numeral b :: rat\<rfloor> = numeral a div numeral b"
  using floor_divide_of_int_eq [of "numeral a" "numeral b", where ?'a = rat] by simp

lemmas float4_eval = float4_def readBack_def nearestFloat32_def roundTo_def quantum_def
  roundHalfEven_def halfEven_def below_def above_def closer_def pow2_def pow10_def

text \<open>
  The values the source writes are kept as they are, and a value with more digits
  than a single-precision number holds is not.
\<close>

lemma float4_kept:
  "float4 0 = Some 0" "float4 7 = Some 7" "float4 23 = Some 23" "float4 24 = Some 24"
  "float4 26 = Some 26" "float4 30 = Some 30" "float4 200 = Some 200" "float4 450 = Some 450"
  "float4 (51 / 2) = Some (51 / 2)" "float4 (34 / 5) = Some (34 / 5)"
  by (simp_all add: float4_eval)

lemma float4_rounds:
  "float4 (25123456789 / 1000000000) = Some (25123457 / 1000000)"
  "float4 16777217 = Some 16777216"
  "float4 (1 / 3) = Some (16666667 / 50000000)"
  "float4 (10 ^ 39) = None"
  by (simp_all add: float4_eval)

lemma realInRange_kept [simp]:
  "realInRange (Num 0)" "realInRange (Num 7)" "realInRange (Num 23)" "realInRange (Num 24)"
  "realInRange (Num 26)" "realInRange (Num 30)" "realInRange (Num 200)" "realInRange (Num 450)"
  "realInRange (Num (51 / 2))" "realInRange (Num (34 / 5))" "realInRange NaN"
  by (simp_all add: realInRange_def float4_kept)

lemma asReal_kept [simp]:
  "asReal (Num 0) = Num 0" "asReal (Num 7) = Num 7" "asReal (Num 23) = Num 23"
  "asReal (Num 24) = Num 24" "asReal (Num 26) = Num 26" "asReal (Num 30) = Num 30"
  "asReal (Num 200) = Num 200" "asReal (Num 450) = Num 450"
  "asReal (Num (51 / 2)) = Num (51 / 2)" "asReal (Num (34 / 5)) = Num (34 / 5)"
  "asReal NaN = NaN"
  by (simp_all add: asReal_def float4_kept)

lemma storable_sampleValues [simp]: "storable sampleValues"
  by (simp add: storable_def sampleValues_def)

lemma statusAsStored_default [simp]: "statusAsStored (defaultStatus k now) = defaultStatus k now"
  by (simp add: statusAsStored_def defaultStatus_def)

lemma dataPointsUpdate_simps [simp]:
  "u_id (dataPointsUpdate n) = None" "u_dataPoints (dataPointsUpdate n) = Some n"
  "u_connectionStatus (dataPointsUpdate n) = None"
  "statusUpdateInRange (dataPointsUpdate n) = int4InRange n"
  "statusUpdateAsStored (dataPointsUpdate n) = dataPointsUpdate n"
  by (simp_all add: dataPointsUpdate_def statusUpdateInRange_def statusUpdateAsStored_def)

subsection \<open>Frame lemmas\<close>

lemma dbTick_simps [simp]:
  "dbCount (dbTick s) = Suc (dbCount s)" "db (dbTick s) = db s" "gateway (dbTick s) = gateway s"
  "dbOutcome (dbTick s) = dbOutcome s" "extCalls (dbTick s) = extCalls s"
  "extResponse (dbTick s) = extResponse s" "clock (dbTick s) = clock s"
  "development (dbTick s) = development s"
  "lastExternalFetchTime (dbTick s) = lastExternalFetchTime s"
  "databaseAvailable (dbTick s) = databaseAvailable s"
  "fb_sensorReadings (dbTick s) = fb_sensorReadings s"
  "fb_systemStatus (dbTick s) = fb_systemStatus s"
  "fb_alertSettings (dbTick s) = fb_alertSettings s"
  by (simp_all add: dbTick_def)

lemma dbFailed_simps [simp]:
  "dbCount (dbFailed s) = Suc (dbCount s)" "db (dbFailed s) = db s" "gateway (dbFailed s) = gateway s"
  "dbOutcome (dbFailed s) = dbOutcome s" "extCalls (dbFailed s) = extCalls s"
  "extResponse (dbFailed s) = extResponse s" "clock (dbFailed s) = clock s"
  "development (dbFailed s) = development s"
  "lastExternalFetchTime (dbFailed s) = lastExternalFetchTime s"
  "databaseAvailable (dbFailed s) = False"
  "fb_sensorReadings (dbFailed s) = fb_sensorReadings s"
  "fb_systemStatus (dbFailed s) = fb_systemStatus s"
  "fb_alertSettings (dbFailed s) = fb_alertSettings s"
  by (simp_all add: dbFailed_def)

lemma assignFallbackStatus_simps [simp]:
  "dbCount (snd (assignFallbackStatus u s)) = dbCount s"
  "db (snd (assignFallbackStatus u s)) = db s"
  "gateway (snd (assignFallbackStatus u s)) = gateway s"
  "dbOutcome (snd (assignFallbackStatus u s)) = dbOutcome s"
  "extCalls (snd (assignFallbackStatus u s)) = extCalls s"
  "extResponse (snd (assignFallbackStatus u s)) = extResponse s"
  "clock (snd (assignFallbackStatus u s)) = clock s"
  "development (snd (assignFallbackStatus u s)) = development s"
  "lastExternalFetchTime (snd (assignFallbackStatus u s)) = lastExternalFetchTime s"
  "databaseAvailable (snd (assignFallbackStatus u s)) = databaseAvailable s"
  "fb_sensorReadings (snd (assignFallbackStatus u s)) = fb_sensorReadings s"
  by (simp_all add: assignFallbackStatus_def Let_def)

lemma updateSystemStatus_frame:
  "gateway (snd (updateSystemStatus u s)) = gateway s"
  "dbOutcome (snd (updateSystemStatus u s)) = dbOutcome s"
  "extCalls (snd (updateSystemStatus u s)) = extCalls s"
  "extResponse (snd (updateSystemStatus u s)) = extResponse s"
  "clock (snd (updateSystemStatus u s)) = clock s"
  "development (snd (updateSystemStatus u s)) = development s"
  "lastExternalFetchTime (snd (updateSystemStatus u s)) = lastExternalFetchTime s"
  "sensorReadings (db (snd (updateSystemStatus u s))) = sensorReadings (db s)"
  "fb_sensorReadings (snd (updateSystemStatus u s)) = fb_sensorReadings s"
  "dbCount s \<le> dbCount (snd (updateSystemStatus u s))"
  by (simp_all add: updateSystemStatus_def Let_def split: option.splits)

lemma updateSystemStatus_flag:
  "databaseAvailable (snd (updateSystemStatus u s)) \<Longrightarrow> databaseAvailable s"
  by (simp add: updateSystemStatus_def Let_def split: option.splits if_splits)

lemma insertReading_simps [simp]:
  "dbCount (snd (insertReading v s)) = dbCount s"
  "gateway (snd (insertReading v s)) = gateway s"
  "dbOutcome (snd (insertReading v s)) = dbOutcome s"
  "extCalls (snd (insertReading v s)) = extCalls s"
  "extResponse (snd (insertReading v s)) = extResponse s"
  "clock (snd (insertReading v s)) = clock s"
  "development (snd (insertReading v s)) = development s"
  "lastExternalFetchTime (snd (insertReading v s)) = lastExternalFetchTime s"
  "databaseAvailable (snd (insertReading v s)) = databaseAvailable s"
  "fb_sensorReadings (snd (insertReading v s)) = fb_sensorReadings s"
  "sensorReadings (db (snd (insertReading v s))) = sensorReadings (db s) @ [fst (insertReading v s)]"
  "systemStatus (db (snd (insertReading v s))) = systemStatus (db s)"
  "temperature (fst (insertReading v s)) = asReal (i_temperature v)"
  "ph (fst (insertReading v s)) = asReal (i_ph v)"
  "tdsLevel (fst (insertReading v s)) = asReal (i_tdsLevel v)"
  by (simp_all add: insertReading_def Let_def)

lemma selectRecent_empty: "(selectRecent (Suc n) t = []) = (sensorReadings t = [])"
proof -
  have "(take (Suc n) xs = []) = (xs = [])" for xs :: "SensorReading list"
    by (cases xs) simp_all
  then show ?thesis
    by (simp add: selectRecent_def del: take_Suc_Cons)
      (metis length_0_conv length_sort)
qed

lemma cacheRead_frame:
  "gateway (snd (cacheRead s)) = gateway s"
  "dbOutcome (snd (cacheRead s)) = dbOutcome s"
  "extCalls (snd (cacheRead s)) = extCalls s"
  "extResponse (snd (cacheRead s)) = extResponse s"
  "clock (snd (cacheRead s)) = clock s"
  "development (snd (cacheRead s)) = development s"
  "lastExternalFetchTime (snd (cacheRead s)) = lastExternalFetchTime s"
  "db (snd (cacheRead s)) = db s"
  "fb_sensorReadings (snd (cacheRead s)) = fb_sensorReadings s"
  "dbCount s \<le> dbCount (snd (cacheRead s))"
  by (simp_all add: cacheRead_def split: list.splits)

lemma cacheRead_hit:
  "(fst (cacheRead s) \<noteq> None) =
     (gateway s \<and> clock s - lastExternalFetchTime s < cacheTimeout \<and> dbOk s
      \<and> sensorReadings (db s) \<noteq> [])"
  using selectRecent_empty [of 0 "db s"]
  by (auto simp: cacheRead_def split: list.splits)

lemma updateSystemStatus_count_tick:
  "dbCount s \<le> dbCount (snd (updateSystemStatus u (dbTick s')))" if "dbCount s \<le> dbCount s'"
  using updateSystemStatus_frame(10) [of "dbTick s'" u] that by simp

lemma storeExternal_frame:
  "gateway (snd (storeExternal now x s)) = gateway s"
  "dbOutcome (snd (storeExternal now x s)) = dbOutcome s"
  "extCalls (snd (storeExternal now x s)) = extCalls s"
  "extResponse (snd (storeExternal now x s)) = extResponse s"
  "clock (snd (storeExternal now x s)) = clock s"
  "development (snd (storeExternal now x s)) = development s"
  "lastExternalFetchTime (snd (storeExternal now x s)) = lastExternalFetchTime s"
  "fb_sensorReadings (snd (storeExternal now x s)) = fb_sensorReadings s"
  by (simp_all add: storeExternal_def Let_def updateSystemStatus_frame)

lemma storeExternal_count: "dbCount s \<le> dbCount (snd (storeExternal now x s))"
  by (simp add: storeExternal_def Let_def updateSystemStatus_count_tick)

lemma fetch_unfold:
  "fetchFromExternalDatabase s =
    (case fst (cacheRead s) of
       Some latest \<Rightarrow> (Some latest, snd (cacheRead s))
     | None \<Rightarrow>
        (case fetchLatestReading (clock s) (extResponse s (extCalls s)) of
           Inl e \<Rightarrow> (None, (snd (cacheRead s))\<lparr>extCalls := Suc (extCalls s)\<rparr>)
         | Inr None \<Rightarrow> (None, (snd (cacheRead s))\<lparr>extCalls := Suc (extCalls s)\<rparr>)
         | Inr (Some x) \<Rightarrow>
             (Some (fst (storeExternal (clock s) x
                      ((snd (cacheRead s))\<lparr>extCalls := Suc (extCalls s),
                                             lastExternalFetchTime := clock s\<rparr>))),
              snd (storeExternal (clock s) x
                      ((snd (cacheRead s))\<lparr>extCalls := Suc (extCalls s),
                                             lastExternalFetchTime := clock s\<rparr>)))))"
  using cacheRead_frame(3,4) [of s]
  by (cases "cacheRead s")
    (simp add: fetchFromExternalDatabase_def Let_def split: option.splits sum.splits)

lemma fetch_frame:
  "gateway (snd (fetchFromExternalDatabase s)) = gateway s"
  "dbOutcome (snd (fetchFromExternalDatabase s)) = dbOutcome s"
  "extResponse (snd (fetchFromExternalDatabase s)) = extResponse s"
  "clock (snd (fetchFromExternalDatabase s)) = clock s"
  "development (snd (fetchFromExternalDatabase s)) = development s"
  "fb_sensorReadings (snd (fetchFromExternalDatabase s)) = fb_sensorReadings s"
  by (simp_all add: fetch_unfold storeExternal_frame cacheRead_frame split: option.splits sum.splits)

lemma fetch_extCalls:
  "extCalls (snd (fetchFromExternalDatabase s)) =
     (if fst (cacheRead s) \<noteq> None then extCalls s else Suc (extCalls s))"
  by (simp add: fetch_unfold storeExternal_frame cacheRead_frame split: option.splits sum.splits)

lemma fetch_last:
  "lastExternalFetchTime (snd (fetchFromExternalDatabase s)) =
     (if fst (cacheRead s) = None
         \<and> (\<exists>x. fetchLatestReading (clock s) (extResponse s (extCalls s)) = Inr (Some x))
      then clock s else lastExternalFetchTime s)"
  by (simp add: fetch_unfold storeExternal_frame cacheRead_frame split: option.splits sum.splits)

subsection \<open>Passes of \<open>getSensorReadings\<close>\<close>

lemma getSensorReadings_pass:
  "getSensorReadings limit s =
     (case readPass limit s of Inl r \<Rightarrow> getSensorReadings limit r | Inr y \<Rightarrow> Some y)"
  by (subst getSensorReadings.simps) (simp add: readPass_def Let_def)

lemma readPass_retry:
  assumes "readPass limit s = Inl r"
  shows "\<not> databaseAvailable r" and "databaseAvailable (snd (fetchFromExternalDatabase s))"
    and "db r = db (snd (fetchFromExternalDatabase s))"
    and "extCalls r = extCalls (snd (fetchFromExternalDatabase s))"
    and "fb_sensorReadings r = fb_sensorReadings s" and "clock r = clock s"
    and "dbCount (snd (fetchFromExternalDatabase s)) < dbCount r"
  using assms
  by (auto simp: readPass_def Let_def fetch_frame split: if_splits)

lemma readPass_result:
  assumes "readPass limit s = Inr y"
  shows "extCalls (snd y) = extCalls (snd (fetchFromExternalDatabase s))"
  using assms
  by (auto simp: readPass_def Let_def fallbackReadings_def split: if_splits)

lemma updateSystemStatus_raised:
  assumes "gateway s" and "databaseAvailable (snd (updateSystemStatus (dataPointsUpdate n) s))"
  shows "int4InRange n"
  using assms
  by (auto simp: updateSystemStatus_def Let_def split: option.splits if_splits)

lemma storeExternal_rows:
  "length (sensorReadings (db s)) \<le> length (sensorReadings (db (snd (storeExternal now x s))))"
  by (simp add: storeExternal_def Let_def updateSystemStatus_frame)

lemma storeExternal_raised:
  assumes "\<not> databaseAvailable s" and "databaseAvailable (snd (storeExternal now x s))"
  shows "length (sensorReadings (db (snd (storeExternal now x s)))) = Suc (length (sensorReadings (db s)))
       \<and> Suc (length (sensorReadings (db s))) < 2 ^ 31"
proof -
  let ?v = "\<lparr>i_temperature = x_temperature x, i_ph = x_ph x, i_tdsLevel = x_tdsLevel x\<rparr>"
  let ?s1 = "(snd (insertReading ?v (dbTick s)))\<lparr>databaseAvailable := True\<rparr>"
  let ?n = "length (sensorReadings (db ?s1))"
  have g: "gateway s" and ok0: "dbOk s \<and> storable ?v"
    using assms by (auto simp: storeExternal_def Let_def split: if_splits)
  have ok1: "dbOk ?s1"
    using assms(2) g ok0 by (auto simp: storeExternal_def Let_def split: if_splits)
  have eq: "snd (storeExternal now x s) = snd (updateSystemStatus (dataPointsUpdate ?n) (dbTick ?s1))"
    using g ok0 ok1 by (simp add: storeExternal_def Let_def)
  have "int4InRange ?n"
    using assms(2) g unfolding eq by (intro updateSystemStatus_raised [of "dbTick ?s1"]) simp_all
  then show ?thesis
    unfolding eq by (simp add: updateSystemStatus_frame int4InRange_def)
qed

lemma cacheRead_flag: "databaseAvailable (snd (cacheRead s)) \<Longrightarrow> databaseAvailable s"
  by (auto simp: cacheRead_def split: if_splits list.splits)

lemma fetch_rows:
  "length (sensorReadings (db s)) \<le> length (sensorReadings (db (snd (fetchFromExternalDatabase s))))"
  using storeExternal_rows
    [of "(snd (cacheRead s))\<lparr>extCalls := Suc (extCalls s), lastExternalFetchTime := clock s\<rparr>"]
  by (auto simp: fetch_unfold cacheRead_frame split: option.splits sum.splits)

lemma fetch_raised:
  assumes "\<not> databaseAvailable s" and "databaseAvailable (snd (fetchFromExternalDatabase s))"
  shows "length (sensorReadings (db (snd (fetchFromExternalDatabase s))))
           = Suc (length (sensorReadings (db s)))
       \<and> Suc (length (sensorReadings (db s))) < 2 ^ 31"
proof -
  let ?s2 = "(snd (cacheRead s))\<lparr>extCalls := Suc (extCalls s), lastExternalFetchTime := clock s\<rparr>"
  have c: "\<not> databaseAvailable (snd (cacheRead s))"
    using assms(1) cacheRead_flag by blast
  then obtain x where x: "fetchLatestReading (clock s) (extResponse s (extCalls s)) = Inr (Some x)"
    and n: "fst (cacheRead s) = None"
    using assms(2) by (auto simp: fetch_unfold split: option.splits sum.splits)
  have eq: "snd (fetchFromExternalDatabase s) = snd (storeExternal (clock s) x ?s2)"
    using x n by (simp add: fetch_unfold)
  have "\<not> databaseAvailable ?s2"
    using c by simp
  from storeExternal_raised [OF this, of "clock s" x] assms(2)
  show ?thesis
    unfolding eq by (simp add: cacheRead_frame)
qed


lemma retry_decreases:
  assumes "readPass limit s = Inl r"
  shows "retryBudget r < retryBudget s"
proof -
  note f = readPass_retry [OF assms]
  have rows: "length (sensorReadings (db r))
                = length (sensorReadings (db (snd (fetchFromExternalDatabase s))))"
    using f(3) by simp
  show ?thesis
  proof (cases "databaseAvailable s")
    case True
    then show ?thesis
      using f(1) rows fetch_rows [of s] by (simp add: retryBudget_def)
  next
    case False
    from fetch_raised [OF False f(2)] show ?thesis
      using f(1) rows False by (simp add: retryBudget_def) linarith
  qed
qed


lemma getSensorReadings_induct:
  assumes "getSensorReadings limit s = Some y"
    and "\<And>s y. readPass limit s = Inr y \<Longrightarrow> P s y"
    and "\<And>s r y. readPass limit s = Inl r \<Longrightarrow> getSensorReadings limit r = Some y \<Longrightarrow> P r y \<Longrightarrow> P s y"
  shows "P s y"
  using assms(1)
proof (induction "retryBudget s" arbitrary: s rule: less_induct)
  case less
  show ?case
  proof (cases "readPass limit s")
    case (Inr z)
    with less.prems have "z = y" by (simp add: getSensorReadings_pass)
    with Inr assms(2) show ?thesis by simp
  next
    case (Inl r)
    have r: "getSensorReadings limit r = Some y"
      using less.prems Inl by (simp add: getSensorReadings_pass)
    from assms(3) [OF Inl r less.hyps [OF retry_decreases [OF Inl] r]] show ?thesis .
  qed
qed

subsection \<open>When the external service is called\<close>

lemma timeRange_frame:
  "gateway (snd (getSensorReadingsByTimeRange a b s)) = gateway s"
  "extResponse (snd (getSensorReadingsByTimeRange a b s)) = extResponse s"
  "clock (snd (getSensorReadingsByTimeRange a b s)) = clock s"
  "extCalls (snd (getSensorReadingsByTimeRange a b s)) = extCalls (snd (fetchFromExternalDatabase s))"
  "lastExternalFetchTime (snd (getSensorReadingsByTimeRange a b s))
     = lastExternalFetchTime (snd (fetchFromExternalDatabase s))"
  "dbOutcome (snd (getSensorReadingsByTimeRange a b s)) = dbOutcome s"
  by (simp_all add: getSensorReadingsByTimeRange_def Let_def fetch_frame)

lemma fetch_extCalls_mono: "extCalls s \<le> extCalls (snd (fetchFromExternalDatabase s))"
  by (simp add: fetch_extCalls)

lemma getSensorReadings_extCalls:
  assumes "getSensorReadings limit s = Some y"
  shows "extCalls (snd (fetchFromExternalDatabase s)) \<le> extCalls (snd y)"
proof (rule getSensorReadings_induct
    [where P = "\<lambda>s y. extCalls (snd (fetchFromExternalDatabase s)) \<le> extCalls (snd y)", OF assms])
  fix s y
  assume "readPass limit s = Inr y"
  then show "extCalls (snd (fetchFromExternalDatabase s)) \<le> extCalls (snd y)"
    by (simp add: readPass_result)
next
  fix s r y
  assume p: "readPass limit s = Inl r"
    and ih: "extCalls (snd (fetchFromExternalDatabase r)) \<le> extCalls (snd y)"
  have "extCalls (snd (fetchFromExternalDatabase s)) = extCalls r"
    using readPass_retry(4) [OF p] by simp
  also have "\<dots> \<le> extCalls (snd (fetchFromExternalDatabase r))"
    by (rule fetch_extCalls_mono)
  finally show "extCalls (snd (fetchFromExternalDatabase s)) \<le> extCalls (snd y)"
    using ih by simp
qed

lemmas orchestrator_defs =
  newDatabaseStorage_def initializeDefaults_def fieldInitialisers_def ensureStatusRow_def
  ensureSettingsRow_def emptyTables_def dbOk_def dbTick_def dbFailed_def elapse_def
  getSensorReadingsByTimeRange_def fetchFromExternalDatabase_def cacheRead_def storeExternal_def
  updateSystemStatus_def assignFallbackStatus_def insertReading_def selectRecent_def
  selectRange_def statusRow_def settingsRow_def assignStatus_def defaultStatus_def
  defaultSettings_def dataPointsUpdate_def statusUpdateInRange_def statusUpdateAsStored_def
  statusAsStored_def int4InRange_def storable_def cacheTimeout_def T0_def Let_def

lemmas write_defs = createSensorReading_def memoryReading_def getSystemStatus_def
  fallbackReadings_def sampleValues_def sampleReading_def readPass_def

text \<open>
  C3, amended. Every pass of a read starts with the priming fetch: the one pass of
  \<open>getSensorReadingsByTimeRange\<close>, the first pass of \<open>getSensorReadings\<close>, and each pass
  that \<open>getSensorReadings\<close> adds after a failed store statement. The priming fetch skips
  the external service only when the gateway is available, the freshness window of
  10 seconds has not elapsed, and the cached read succeeds and finds a stored reading;
  in every other case it calls the service exactly once. A pass makes no other call.
  So a read that returns has made at least the calls of its first priming fetch, and
  it has made no call at all only if the three conditions held when it started.
\<close>

theorem external_fetch_condition:
  "extCalls (snd (fetchFromExternalDatabase s)) =
     (if gateway s \<and> clock s - lastExternalFetchTime s < cacheTimeout \<and> dbOk s
         \<and> sensorReadings (db s) \<noteq> []
      then extCalls s else Suc (extCalls s))
   \<and> extCalls (snd (getSensorReadingsByTimeRange startT endT s))
       = extCalls (snd (fetchFromExternalDatabase s))
   \<and> (readPass limit s = Inr (r, s') \<longrightarrow>
        getSensorReadings limit s = Some (r, s')
        \<and> extCalls s' = extCalls (snd (fetchFromExternalDatabase s)))
   \<and> (readPass limit s = Inl s'' \<longrightarrow>
        getSensorReadings limit s = getSensorReadings limit s''
        \<and> extCalls s'' = extCalls (snd (fetchFromExternalDatabase s)))
   \<and> (getSensorReadings limit s = Some (r, s') \<longrightarrow>
        extCalls (snd (fetchFromExternalDatabase s)) \<le> extCalls s'
        \<and> (extCalls s' = extCalls s \<longrightarrow>
             gateway s \<and> clock s - lastExternalFetchTime s < cacheTimeout \<and> dbOk s
             \<and> sensorReadings (db s) \<noteq> []))"
proof -
  have a: "extCalls (snd (fetchFromExternalDatabase s)) =
     (if gateway s \<and> clock s - lastExternalFetchTime s < cacheTimeout \<and> dbOk s
         \<and> sensorReadings (db s) \<noteq> []
      then extCalls s else Suc (extCalls s))"
    using fetch_extCalls [of s] by (simp only: cacheRead_hit)
  have b: "extCalls (snd (getSensorReadingsByTimeRange startT endT s))
       = extCalls (snd (fetchFromExternalDatabase s))"
    by (simp only: timeRange_frame)
  have c: "readPass limit s = Inr (r, s') \<longrightarrow>
        getSensorReadings limit s = Some (r, s')
        \<and> extCalls s' = extCalls (snd (fetchFromExternalDatabase s))"
  proof
    assume that: "readPass limit s = Inr (r, s')"
    show "getSensorReadings limit s = Some (r, s')
        \<and> extCalls s' = extCalls (snd (fetchFromExternalDatabase s))"
      using that readPass_result [OF that] by (simp add: getSensorReadings_pass)
  qed
  have d: "readPass limit s = Inl s'' \<longrightarrow>
        getSensorReadings limit s = getSensorReadings limit s''
        \<and> extCalls s'' = extCalls (snd (fetchFromExternalDatabase s))"
  proof
    assume that: "readPass limit s = Inl s''"
    show "getSensorReadings limit s = getSensorReadings limit s''
        \<and> extCalls s'' = extCalls (snd (fetchFromExternalDatabase s))"
      using that readPass_retry(4) [OF that] by (simp add: getSensorReadings_pass)
  qed
  have e: "getSensorReadings limit s = Some (r, s') \<longrightarrow>
        extCalls (snd (fetchFromExternalDatabase s)) \<le> extCalls s'
        \<and> (extCalls s' = extCalls s \<longrightarrow>
             gateway s \<and> clock s - lastExternalFetchTime s < cacheTimeout \<and> dbOk s
             \<and> sensorReadings (db s) \<noteq> [])"
  proof
    assume that: "getSensorReadings limit s = Some (r, s')"
    have le: "extCalls (snd (fetchFromExternalDatabase s)) \<le> extCalls s'"
      using getSensorReadings_extCalls [OF that] by simp
    moreover have "gateway s \<and> clock s - lastExternalFetchTime s < cacheTimeout \<and> dbOk s
             \<and> sensorReadings (db s) \<noteq> []" if "extCalls s' = extCalls s"
    proof (rule ccontr)
      assume "\<not> ?thesis"
      with a have "extCalls (snd (fetchFromExternalDatabase s)) = Suc (extCalls s)"
        by (simp only: if_False)
      with le that show False by simp
    qed
    ultimately show "extCalls (snd (fetchFromExternalDatabase s)) \<le> extCalls s'
        \<and> (extCalls s' = extCalls s \<longrightarrow>
             gateway s \<and> clock s - lastExternalFetchTime s < cacheTimeout \<and> dbOk s
             \<and> sensorReadings (db s) \<noteq> [])" by blast
  qed
  show ?thesis
    by (intro conjI) (rule a b c d e)+
qed

lemma offlineStorage_simps:
  "gateway offlineStorage = False" "clock offlineStorage = T0" "extCalls offlineStorage = 0"
  "extResponse offlineStorage = (\<lambda>k. hydroResponse)" "lastExternalFetchTime offlineStorage = 0"
  "databaseAvailable offlineStorage = False"
  by (simp_all add: offlineStorage_def newDatabaseStorage_def initializeDefaults_def fieldInitialisers_def)

lemma offline_reads:
  "getSensorReadings 50 offlineStorage = Some offlineFirstRead"
  "\<not> gateway offlineSecondRead"
  "clock offlineSecondRead - lastExternalFetchTime offlineSecondRead < cacheTimeout"
  "map_option (extCalls \<circ> snd) (getSensorReadings 50 offlineSecondRead)
     = Some (Suc (extCalls offlineSecondRead))"
proof -
  have c: "fst (cacheRead s) = None" if "\<not> gateway s" for s
    using that by (simp add: cacheRead_def)
  have d: "\<not> databaseAvailable (snd (fetchFromExternalDatabase s))"
    if "\<not> gateway s" "\<not> databaseAvailable s" for s
    using that c [OF that(1)]
    by (simp add: fetch_unfold storeExternal_def cacheRead_def split: option.splits sum.splits)
  show 1: "getSensorReadings 50 offlineStorage = Some offlineFirstRead"
    using d [of offlineStorage]
    by (simp add: getSensorReadings_pass readPass_def offlineFirstRead_def offlineStorage_simps)
  have f: "snd (fallbackReadings n s) = s\<lparr>fb_sensorReadings := fb_sensorReadings (snd (fallbackReadings n s))\<rparr>"
    for n s
    by (simp add: fallbackReadings_def Let_def)
  have g: "gateway (snd (fallbackReadings n s)) = gateway s"
    "clock (snd (fallbackReadings n s)) = clock s"
    "extCalls (snd (fallbackReadings n s)) = extCalls s"
    "lastExternalFetchTime (snd (fallbackReadings n s)) = lastExternalFetchTime s"
    "databaseAvailable (snd (fallbackReadings n s)) = databaseAvailable s" for n s
    by (simp_all add: fallbackReadings_def Let_def)
  show 2: "\<not> gateway offlineSecondRead"
    by (simp add: offlineSecondRead_def offlineFirstRead_def elapse_def g fetch_frame offlineStorage_simps)
  have l: "lastExternalFetchTime offlineSecondRead = T0"
    by (simp add: offlineSecondRead_def offlineFirstRead_def elapse_def g fetch_last c
        offlineStorage_simps hydro_fetch)
  have k: "clock offlineSecondRead = T0 + 1000"
    by (simp add: offlineSecondRead_def offlineFirstRead_def elapse_def g fetch_frame offlineStorage_simps)
  show "clock offlineSecondRead - lastExternalFetchTime offlineSecondRead < cacheTimeout"
    by (simp add: l k cacheTimeout_def)
  have a: "\<not> databaseAvailable offlineSecondRead"
    using d [of offlineStorage]
    by (simp add: offlineSecondRead_def offlineFirstRead_def elapse_def g offlineStorage_simps)
  show "map_option (extCalls \<circ> snd) (getSensorReadings 50 offlineSecondRead)
     = Some (Suc (extCalls offlineSecondRead))"
    using d [OF 2 a] 2
    by (simp add: getSensorReadings_pass readPass_def g fetch_extCalls c)
qed

lemma emptyWindow_reads:
  "getSensorReadings 50 emptyWindowStorage = Some emptyWindowFirstRead"
  "gateway emptyWindowSecondRead"
  "clock emptyWindowSecondRead - lastExternalFetchTime emptyWindowSecondRead < cacheTimeout"
  "map_option (extCalls \<circ> snd) (getSensorReadings 50 emptyWindowSecondRead)
     = Some (Suc (extCalls emptyWindowSecondRead))"
proof -
  have e: "\<not> databaseAvailable (snd (fetchFromExternalDatabase emptyWindowStorage))"
    by (simp add: emptyWindowStorage_def orchestrator_defs hydro_fetch hydroReading_def)
  then show "getSensorReadings 50 emptyWindowStorage = Some emptyWindowFirstRead"
    by (simp add: getSensorReadings_pass readPass_def emptyWindowFirstRead_def)
  show "gateway emptyWindowSecondRead"
    "clock emptyWindowSecondRead - lastExternalFetchTime emptyWindowSecondRead < cacheTimeout"
    by (simp_all add: emptyWindowSecondRead_def emptyWindowFirstRead_def emptyWindowStorage_def
        orchestrator_defs write_defs hydro_fetch hydroReading_def)
  have p: "\<exists>y. readPass 50 emptyWindowSecondRead = Inr y
            \<and> extCalls (snd y) = Suc (extCalls emptyWindowSecondRead)"
    by (simp add: emptyWindowSecondRead_def emptyWindowFirstRead_def emptyWindowStorage_def
        orchestrator_defs write_defs hydro_fetch hydroReading_def)
  then show "map_option (extCalls \<circ> snd) (getSensorReadings 50 emptyWindowSecondRead)
     = Some (Suc (extCalls emptyWindowSecondRead))"
    by (auto simp: getSensorReadings_pass)
qed

lemma retry_reads:
  "getSensorReadings 50 retryStorage = Some retryFirstRead"
  "gateway retrySecondRead \<and> clock retrySecondRead - lastExternalFetchTime retrySecondRead < cacheTimeout
   \<and> dbOk retrySecondRead \<and> sensorReadings (db retrySecondRead) \<noteq> []"
  "\<exists>r. readPass 50 retrySecondRead = Inl r \<and> extCalls r = extCalls retrySecondRead
       \<and> (\<exists>y. readPass 50 r = Inr y \<and> extCalls (snd y) = Suc (extCalls retrySecondRead))"
  by (simp_all add: getSensorReadings_pass retrySecondRead_def retryFirstRead_def retryStorage_def
      orchestrator_defs write_defs hydro_fetch hydroReading_def)

lemma retry_read_calls:
  "map_option (extCalls \<circ> snd) (getSensorReadings 50 retrySecondRead)
     = Some (Suc (extCalls retrySecondRead))"
proof -
  obtain r y where "readPass 50 retrySecondRead = Inl r" "readPass 50 r = Inr y"
    "extCalls (snd y) = Suc (extCalls retrySecondRead)"
    using retry_reads(3) by blast
  then show ?thesis
    by (simp add: getSensorReadings_pass [of 50 retrySecondRead] getSensorReadings_pass [of 50 r])
qed

text \<open>
  C3, as stated, fails. With no gateway and one second after a successful fetch, so
  that neither condition of the claim holds, \<open>getSensorReadings\<close> still calls the
  external service. With the gateway available, one second after a successful fetch
  whose insert was refused, it calls the service although the window has not elapsed.
  And with the gateway available, the window not elapsed and a stored reading that
  the cached read finds, the read still calls the service, in the pass that follows
  its failed query.
\<close>

theorem unavailable_gateway_fetch_counterexample:
  "getSensorReadings 50 offlineStorage = Some offlineFirstRead
   \<and> \<not> gateway offlineSecondRead
   \<and> clock offlineSecondRead - lastExternalFetchTime offlineSecondRead < cacheTimeout
   \<and> map_option (extCalls \<circ> snd) (getSensorReadings 50 offlineSecondRead)
       = Some (Suc (extCalls offlineSecondRead))
   \<and> getSensorReadings 50 emptyWindowStorage = Some emptyWindowFirstRead
   \<and> gateway emptyWindowSecondRead
   \<and> clock emptyWindowSecondRead - lastExternalFetchTime emptyWindowSecondRead < cacheTimeout
   \<and> map_option (extCalls \<circ> snd) (getSensorReadings 50 emptyWindowSecondRead)
       = Some (Suc (extCalls emptyWindowSecondRead))
   \<and> getSensorReadings 50 retryStorage = Some retryFirstRead
   \<and> gateway retrySecondRead
   \<and> clock retrySecondRead - lastExternalFetchTime retrySecondRead < cacheTimeout
   \<and> extCalls (snd (fetchFromExternalDatabase retrySecondRead)) = extCalls retrySecondRead
   \<and> map_option (extCalls \<circ> snd) (getSensorReadings 50 retrySecondRead)
       = Some (Suc (extCalls retrySecondRead))"
proof -
  have "fst (cacheRead retrySecondRead) \<noteq> None"
    using retry_reads(2) unfolding cacheRead_hit .
  then have "extCalls (snd (fetchFromExternalDatabase retrySecondRead)) = extCalls retrySecondRead"
    by (simp add: fetch_extCalls)
  then show ?thesis
    using offline_reads emptyWindow_reads retry_reads(1,2) retry_read_calls
    by (simp only: simp_thms)
qed

theorem external_fetch_condition_witness:
  "gateway retrySecondRead
   \<and> clock retrySecondRead - lastExternalFetchTime retrySecondRead < cacheTimeout
   \<and> dbOk retrySecondRead \<and> sensorReadings (db retrySecondRead) \<noteq> []
   \<and> extCalls (snd (fetchFromExternalDatabase retrySecondRead)) = extCalls retrySecondRead
   \<and> map_option (extCalls \<circ> snd) (getSensorReadings 50 retrySecondRead)
       = Some (Suc (extCalls retrySecondRead))
   \<and> extCalls (snd (fetchFromExternalDatabase offlineStorage)) = Suc (extCalls offlineStorage)"
proof -
  obtain r y where r: "readPass 50 retrySecondRead = Inl r"
    and y: "readPass 50 r = Inr y" "extCalls (snd y) = Suc (extCalls retrySecondRead)"
    using retry_reads(3) by blast
  have 1: "getSensorReadings 50 retrySecondRead = getSensorReadings 50 r"
    using external_fetch_condition [of retrySecondRead 0 0 50 "[]" retrySecondRead r] r by blast
  have 2: "getSensorReadings 50 r = Some y"
    using external_fetch_condition [of r 0 0 50 "fst y" "snd y" r] y(1) by simp
  have 3: "extCalls (snd (fetchFromExternalDatabase retrySecondRead)) = extCalls retrySecondRead"
    using external_fetch_condition [of retrySecondRead 0 0 50 "[]" retrySecondRead r] retry_reads(2)
    by simp
  have 4: "extCalls (snd (fetchFromExternalDatabase offlineStorage)) = Suc (extCalls offlineStorage)"
    using external_fetch_condition [of offlineStorage 0 0 50 "[]" offlineStorage offlineStorage]
    by (simp add: offlineStorage_simps)
  show ?thesis
    using retry_reads(2) 1 2 3 4 y(2) by simp
qed

subsection \<open>The freshness window after a failed fetch\<close>

lemma flakyStorage_eval:
  "dbCount flakyStorage = 5 \<and> databaseAvailable flakyStorage \<and> sensorReadings (db flakyStorage) = []
   \<and> lastExternalFetchTime flakyStorage = 0 \<and> extCalls flakyStorage = 0 \<and> clock flakyStorage = T0"
  by (simp add: flakyStorage_def orchestrator_defs)

lemma flakyRead1_eval:
  "dbCount flakyRead1 = 10 \<and> databaseAvailable flakyRead1 \<and> length (sensorReadings (db flakyRead1)) = 1
   \<and> lastExternalFetchTime flakyRead1 = T0 \<and> extCalls flakyRead1 = 1"
  by (simp add: flakyRead1_def flakyStorage_def orchestrator_defs hydro_fetch rejected_fetch hydroReading_def)

lemma flakyRead2_eval:
  "dbCount flakyRead2 = 12 \<and> \<not> databaseAvailable flakyRead2 \<and> length (sensorReadings (db flakyRead2)) = 1
   \<and> lastExternalFetchTime flakyRead2 = T0 \<and> extCalls flakyRead2 = 2"
  by (simp add: flakyRead2_def flakyRead1_def flakyStorage_def orchestrator_defs hydro_fetch rejected_fetch hydroReading_def)

lemma flakyRead3_eval:
  "dbCount flakyRead3 = 14 \<and> extCalls flakyRead3 = 2 \<and> clock flakyRead3 = T0 + 2000"
  by (simp add: flakyRead3_def flakyRead2_def flakyRead1_def flakyStorage_def orchestrator_defs hydro_fetch rejected_fetch hydroReading_def)

text \<open>
  C10, as stated, fails. In the second of three reads the cached read fails, the
  external service is called and returns nothing, and the fetch time stays where the
  first read put it; the third read, one second later, is inside that window, finds
  the stored reading and makes no external call.
\<close>

theorem stale_window_counterexample:
  "fetchLatestReading (clock (elapse 1000 flakyRead1))
      (extResponse (elapse 1000 flakyRead1) (extCalls (elapse 1000 flakyRead1))) = Inr None
   \<and> extCalls flakyRead2 = Suc (extCalls flakyRead1)
   \<and> lastExternalFetchTime flakyRead2 = lastExternalFetchTime flakyRead1
   \<and> extCalls flakyRead3 = extCalls flakyRead2"
proof -
  have r: "extResponse (elapse 1000 flakyRead1) = (\<lambda>k. if k = 0 then hydroResponse else FetchRejected)"
    by (simp add: flakyRead1_def elapse_def timeRange_frame flakyStorage_def newDatabaseStorage_def
        initializeDefaults_def fieldInitialisers_def ensureStatusRow_def ensureSettingsRow_def
        dbOk_def dbTick_def emptyTables_def)
  have e: "extCalls (elapse 1000 flakyRead1) = 1"
    using flakyRead1_eval by (simp add: elapse_def)
  show ?thesis
    using flakyRead1_eval flakyRead2_eval flakyRead3_eval
    by (simp add: r e rejected_fetch)
qed

text \<open>
  C10, amended. \<open>lastExternalFetchTime\<close> changes only when the external service
  returned a reading, and then to the instant of the call; a fetch that returned
  nothing leaves it unchanged. So when that fetch was made with the window elapsed or
  with no gateway, a read at any later instant, however close, calls the external
  service again, as long as the fetch time has not been moved in between.
\<close>

theorem failed_fetch_keeps_window:
  "(fetchLatestReading (clock s) (extResponse s (extCalls s)) = Inr None \<longrightarrow>
      lastExternalFetchTime (snd (fetchFromExternalDatabase s)) = lastExternalFetchTime s)
   \<and> (lastExternalFetchTime (snd (fetchFromExternalDatabase s)) \<noteq> lastExternalFetchTime s \<longrightarrow>
        (\<exists>x. fetchLatestReading (clock s) (extResponse s (extCalls s)) = Inr (Some x))
        \<and> lastExternalFetchTime (snd (fetchFromExternalDatabase s)) = clock s)
   \<and> ((\<not> gateway s \<or> cacheTimeout \<le> clock s - lastExternalFetchTime s)
        \<and> fetchLatestReading (clock s) (extResponse s (extCalls s)) = Inr None
        \<and> lastExternalFetchTime s' = lastExternalFetchTime (snd (fetchFromExternalDatabase s))
        \<and> gateway s' = gateway s \<and> clock s \<le> clock s' \<longrightarrow>
        extCalls (snd (fetchFromExternalDatabase s')) = Suc (extCalls s'))"
proof -
  let ?r = "fetchLatestReading (clock s) (extResponse s (extCalls s))"
  have a: "lastExternalFetchTime (snd (fetchFromExternalDatabase s)) = lastExternalFetchTime s"
    if "?r = Inr None"
    using that by (simp add: fetch_last)
  have b: "(\<exists>x. ?r = Inr (Some x))
        \<and> lastExternalFetchTime (snd (fetchFromExternalDatabase s)) = clock s"
    if "lastExternalFetchTime (snd (fetchFromExternalDatabase s)) \<noteq> lastExternalFetchTime s"
    using that by (simp add: fetch_last split: if_splits)
  have c: "extCalls (snd (fetchFromExternalDatabase s')) = Suc (extCalls s')"
    if w: "\<not> gateway s \<or> cacheTimeout \<le> clock s - lastExternalFetchTime s"
      and n: "?r = Inr None"
      and l: "lastExternalFetchTime s' = lastExternalFetchTime (snd (fetchFromExternalDatabase s))"
      and g: "gateway s' = gateway s" and t: "clock s \<le> clock s'"
  proof -
    have "lastExternalFetchTime s' = lastExternalFetchTime s"
      using l a [OF n] by simp
    with w g t have "\<not> gateway s' \<or> cacheTimeout \<le> clock s' - lastExternalFetchTime s'"
      by auto
    then have "fst (cacheRead s') = None"
      by (auto simp: cacheRead_def)
    then show ?thesis
      by (simp add: fetch_extCalls)
  qed
  from a b c show ?thesis by blast
qed

theorem failed_fetch_keeps_window_witness:
  "cacheTimeout \<le> clock unreachableUpstream - lastExternalFetchTime unreachableUpstream
   \<and> fetchLatestReading (clock unreachableUpstream) (extResponse unreachableUpstream (extCalls unreachableUpstream)) = Inr None
   \<and> lastExternalFetchTime (snd (fetchFromExternalDatabase unreachableUpstream)) = lastExternalFetchTime unreachableUpstream
   \<and> extCalls (snd (fetchFromExternalDatabase (elapse 1 (snd (fetchFromExternalDatabase unreachableUpstream)))))
       = Suc (extCalls (elapse 1 (snd (fetchFromExternalDatabase unreachableUpstream))))"
proof -
  have i: "clock unreachableUpstream = T0" "lastExternalFetchTime unreachableUpstream = 0" "gateway unreachableUpstream"
    "extResponse unreachableUpstream = (\<lambda>k. FetchRejected)"
    by (simp_all add: unreachableUpstream_def orchestrator_defs)
  have w: "cacheTimeout \<le> clock unreachableUpstream - lastExternalFetchTime unreachableUpstream"
    by (simp add: i cacheTimeout_def T0_def)
  have n: "fetchLatestReading (clock unreachableUpstream) (extResponse unreachableUpstream (extCalls unreachableUpstream)) = Inr None"
    by (simp add: i rejected_fetch)
  have e: "lastExternalFetchTime (elapse 1 (snd (fetchFromExternalDatabase unreachableUpstream)))
             = lastExternalFetchTime (snd (fetchFromExternalDatabase unreachableUpstream))"
    "gateway (elapse 1 (snd (fetchFromExternalDatabase unreachableUpstream))) = gateway unreachableUpstream"
    "clock unreachableUpstream \<le> clock (elapse 1 (snd (fetchFromExternalDatabase unreachableUpstream)))"
    by (simp_all add: elapse_def fetch_frame)
  show ?thesis
    using failed_fetch_keeps_window [of unreachableUpstream "elapse 1 (snd (fetchFromExternalDatabase unreachableUpstream))"]
      w n e
    by simp
qed

subsection \<open>Recount of the data points\<close>

lemma createSensorReading_recount:
  assumes "gateway s" and "databaseAvailable (snd (createSensorReading v s))"
  shows "sensorReadings (db (snd (createSensorReading v s)))
           = sensorReadings (db s) @ [fst (createSensorReading v s)]
       \<and> map_option dataPoints (statusRow (db (snd (createSensorReading v s))))
           = Some (length (sensorReadings (db (snd (createSensorReading v s)))))"
proof -
  let ?s1 = "snd (insertReading v (dbTick s))"
  let ?n = "length (sensorReadings (db ?s1))"
  let ?u = "updateSystemStatus (dataPointsUpdate ?n) (dbTick ?s1)"
  have ok: "dbOk s \<and> storable v" "dbOk ?s1"
    using assms by (auto simp: createSensorReading_def memoryReading_def Let_def split: if_splits)
  have eq: "createSensorReading v s = (fst (insertReading v (dbTick s)), snd ?u)"
    using assms(1) ok by (simp add: createSensorReading_def Let_def)
  have up: "databaseAvailable (snd ?u)"
    using assms(2) unfolding eq by simp
  have rows: "sensorReadings (db (snd ?u)) = sensorReadings (db s) @ [fst (insertReading v (dbTick s))]"
    by (simp add: updateSystemStatus_frame)
  have "map_option dataPoints (statusRow (db (snd ?u))) = Some ?n"
    using up assms(1)
    by (auto simp: updateSystemStatus_def Let_def statusRow_def assignStatus_def
        statusUpdateAsStored_def statusAsStored_def dataPointsUpdate_def
        split: option.splits list.splits if_splits)
  then show ?thesis
    unfolding eq using rows by simp
qed

lemma devStorage_read: "getSensorReadings 50 devStorage = Some devSeedRead"
  by (simp add: getSensorReadings_pass devSeedRead_def devStorage_def orchestrator_defs write_defs
      rejected_fetch)

text \<open>
  C5 holds on the two paths it names and fails on a third insert. On an empty store
  in development, with every statement succeeding, \<open>getSensorReadings(50)\<close> inserts the
  seed reading and returns it without a count and without an update of the status:
  one reading is stored and \<open>dataPoints\<close> is still 0, where \<open>createSensorReading\<close> of the
  same values on the same store leaves 1. And when the count that follows the insert
  of \<open>createSensorReading\<close> fails, the reading stays stored, \<open>dataPoints\<close> keeps its old
  value and the caller gets an in-memory copy.
\<close>

theorem seed_insert_skips_recount:
  "getSensorReadings 50 devStorage = Some devSeedRead
   \<and> map r_id (fst devSeedRead) = [RowId 2]
   \<and> sensorReadings (db (snd devSeedRead)) = fst devSeedRead
   \<and> databaseAvailable (snd devSeedRead)
   \<and> map_option dataPoints (statusRow (db (snd devSeedRead))) = Some 0
   \<and> map_option dataPoints (statusRow (db (snd (createSensorReading sampleValues devStorage)))) = Some 1
   \<and> length (sensorReadings (db (snd (createSensorReading sampleValues countFailStorage)))) = 1
   \<and> map_option dataPoints (statusRow (db (snd (createSensorReading sampleValues countFailStorage)))) = Some 0
   \<and> r_id (fst (createSensorReading sampleValues countFailStorage)) = MemoryId T0"
proof -
  have a: "map r_id (fst devSeedRead) = [RowId 2]"
    "sensorReadings (db (snd devSeedRead)) = fst devSeedRead"
    "databaseAvailable (snd devSeedRead)"
    "map_option dataPoints (statusRow (db (snd devSeedRead))) = Some 0"
    by (simp_all add: devSeedRead_def devStorage_def orchestrator_defs write_defs rejected_fetch)
  have b: "map_option dataPoints (statusRow (db (snd (createSensorReading sampleValues devStorage)))) = Some 1"
    by (simp add: devStorage_def orchestrator_defs write_defs)
  have c: "length (sensorReadings (db (snd (createSensorReading sampleValues countFailStorage)))) = 1"
    "map_option dataPoints (statusRow (db (snd (createSensorReading sampleValues countFailStorage)))) = Some 0"
    "r_id (fst (createSensorReading sampleValues countFailStorage)) = MemoryId T0"
    by (simp_all add: countFailStorage_def orchestrator_defs write_defs)
  show ?thesis
    using devStorage_read a b c by (simp only: simp_thms)
qed

subsection \<open>Reads of readings\<close>

lemma getSensorReadings_live:
  assumes "databaseAvailable (snd (fetchFromExternalDatabase s))"
    and "gateway s" and "dbOk (snd (fetchFromExternalDatabase s))"
  shows "getSensorReadings limit s =
    (let s2 = (dbTick (snd (fetchFromExternalDatabase s)))\<lparr>databaseAvailable := True\<rparr>;
         readings = selectRecent limit (db s2)
     in if readings = [] then
          (if development s then
             (if \<not> dbOk s2 then getSensorReadings limit (dbFailed s2)
              else Some ([fst (insertReading sampleValues (dbTick s2))],
                         snd (insertReading sampleValues (dbTick s2))))
           else
             Some ([sampleReading (FallbackId (clock s)) (clock s)],
                   s2\<lparr>fb_sensorReadings := [sampleReading (FallbackId (clock s)) (clock s)]\<rparr>))
        else Some (readings, s2))"
  using assms
  by (subst getSensorReadings.simps) (simp add: Let_def fetch_frame)


lemma selectRecent_Nil: "sensorReadings t = [] \<Longrightarrow> selectRecent n t = []"
  by (simp add: selectRecent_def)

text \<open>
  C4. Let the flag be up after the priming fetch and let the query of
  \<open>getSensorReadings\<close> succeed on a store without readings. In development, if the
  insert succeeds, the call returns one row with the sample values and that row is
  the only stored reading. Otherwise the call returns one synthesized reading, keeps
  it as the fallback list and leaves the store as it was.
\<close>

theorem empty_store_policy:
  assumes "s1 = snd (fetchFromExternalDatabase s)"
    and "databaseAvailable s1" and "gateway s1" and "dbOk s1"
    and "sensorReadings (db s1) = []"
  shows "(development s \<and> dbOk (dbTick s1) \<longrightarrow>
           (\<exists>row s'. getSensorReadings limit s = Some ([row], s')
              \<and> sensorReadings (db s') = [row]
              \<and> temperature row = Num (51 / 2) \<and> ph row = Num (34 / 5) \<and> tdsLevel row = Num 450))
       \<and> (\<not> development s \<longrightarrow>
           (\<exists>r s'. getSensorReadings limit s = Some ([r], s')
              \<and> db s' = db s1 \<and> sensorReadings (db s') = []
              \<and> r = sampleReading (FallbackId (clock s)) (clock s)
              \<and> fb_sensorReadings s' = [r]))"
proof -
  have g: "gateway s"
    using assms(1,3) by (simp add: fetch_frame)
  have live: "databaseAvailable (snd (fetchFromExternalDatabase s))"
    "dbOk (snd (fetchFromExternalDatabase s))"
    using assms(1,2,4) by simp_all
  have none: "selectRecent limit (db ((dbTick s1)\<lparr>databaseAvailable := True\<rparr>)) = []"
    using assms(5) by (simp add: selectRecent_Nil)
  have ok2: "dbOk ((dbTick s1)\<lparr>databaseAvailable := True\<rparr>) = dbOk (dbTick s1)"
    by (simp add: dbOk_def)
  have dev: "\<exists>row s'. getSensorReadings limit s = Some ([row], s')
              \<and> sensorReadings (db s') = [row]
              \<and> temperature row = Num (51 / 2) \<and> ph row = Num (34 / 5) \<and> tdsLevel row = Num 450"
    if "development s" "dbOk (dbTick s1)"
    using that none ok2 assms(5)
    by (simp add: getSensorReadings_live [OF live(1) g live(2)] assms(1) [symmetric] Let_def
        sampleValues_def)
  have prod: "\<exists>r s'. getSensorReadings limit s = Some ([r], s')
              \<and> db s' = db s1 \<and> sensorReadings (db s') = []
              \<and> r = sampleReading (FallbackId (clock s)) (clock s)
              \<and> fb_sensorReadings s' = [r]"
    if "\<not> development s"
    using that none assms(5)
    by (simp add: getSensorReadings_live [OF live(1) g live(2)] assms(1) [symmetric] Let_def)
  from dev prod show ?thesis by blast
qed

lemma sorted_selectRange: "sorted (map timestamp (selectRange a b t))"
  by (simp add: selectRange_def)

lemma mset_selectRange:
  "mset (selectRange a b t) =
     mset (filter (\<lambda>r. a \<le> timestamp r \<and> timestamp r \<le> b) (sensorReadings t))"
  by (simp add: selectRange_def)

text \<open>
  C9. With the gateway available and the range query succeeding,
  \<open>getSensorReadingsByTimeRange\<close> returns the stored readings whose timestamp lies in
  the closed interval, each as often as it is stored, in ascending order of
  timestamp; if the start is after the end it returns the empty list.
\<close>

theorem time_range_live:
  assumes "gateway s" and "dbOk (snd (fetchFromExternalDatabase s))"
  shows "mset (fst (getSensorReadingsByTimeRange startT endT s)) =
           mset (filter (\<lambda>r. startT \<le> timestamp r \<and> timestamp r \<le> endT)
                  (sensorReadings (db (snd (getSensorReadingsByTimeRange startT endT s)))))
       \<and> sorted (map timestamp (fst (getSensorReadingsByTimeRange startT endT s)))
       \<and> (endT < startT \<longrightarrow> fst (getSensorReadingsByTimeRange startT endT s) = [])"
proof -
  let ?s1 = "snd (fetchFromExternalDatabase s)"
  have r: "getSensorReadingsByTimeRange startT endT s = (selectRange startT endT (db ?s1), dbTick ?s1)"
    using assms by (simp add: getSensorReadingsByTimeRange_def Let_def fetch_frame)
  have e: "selectRange startT endT (db ?s1) = []" if "endT < startT"
  proof -
    have "filter (\<lambda>r. startT \<le> timestamp r \<and> timestamp r \<le> endT) xs = []" for xs :: "SensorReading list"
      using that by (induction xs) auto
    then show ?thesis by (simp add: selectRange_def)
  qed
  show ?thesis
    unfolding r using e by (simp add: sorted_selectRange mset_selectRange)
qed

theorem empty_store_policy_witness:
  "databaseAvailable (snd (fetchFromExternalDatabase devStorage))
   \<and> sensorReadings (db (snd (fetchFromExternalDatabase devStorage))) = []
   \<and> development devStorage
   \<and> (\<exists>row s'. getSensorReadings 50 devStorage = Some ([row], s') \<and> sensorReadings (db s') = [row]
        \<and> temperature row = Num (51 / 2))
   \<and> databaseAvailable (snd (fetchFromExternalDatabase prodStorage))
   \<and> sensorReadings (db (snd (fetchFromExternalDatabase prodStorage))) = []
   \<and> \<not> development prodStorage
   \<and> (\<exists>r s'. getSensorReadings 50 prodStorage = Some ([r], s') \<and> sensorReadings (db s') = []
        \<and> r_id r = FallbackId T0)"
proof -
  let ?d = "snd (fetchFromExternalDatabase devStorage)"
  let ?p = "snd (fetchFromExternalDatabase prodStorage)"
  have d: "databaseAvailable ?d" "gateway ?d" "dbOk ?d" "sensorReadings (db ?d) = []"
    "development devStorage" "dbOk (dbTick ?d)"
    by (simp_all add: devStorage_def orchestrator_defs rejected_fetch)
  have p: "databaseAvailable ?p" "gateway ?p" "dbOk ?p" "sensorReadings (db ?p) = []"
    "\<not> development prodStorage" "clock prodStorage = T0"
    by (simp_all add: prodStorage_def orchestrator_defs rejected_fetch)
  have "\<exists>row s'. getSensorReadings 50 devStorage = Some ([row], s') \<and> sensorReadings (db s') = [row]
        \<and> temperature row = Num (51 / 2)"
    using empty_store_policy [OF refl d(1-4), of 50] d(5,6) by blast
  moreover have "\<exists>r s'. getSensorReadings 50 prodStorage = Some ([r], s') \<and> sensorReadings (db s') = []
        \<and> r_id r = FallbackId T0"
    using empty_store_policy [OF refl p(1-4), of 50] p(5,6) by (auto simp: sampleReading_def)
  ultimately show ?thesis
    using d p by blast
qed

theorem time_range_live_witness:
  "gateway threeRowStorage \<and> dbOk (snd (fetchFromExternalDatabase threeRowStorage))
   \<and> map r_id (fst (getSensorReadingsByTimeRange 15 30 threeRowStorage)) = [RowId 2, RowId 1]
   \<and> sorted (map timestamp (fst (getSensorReadingsByTimeRange 15 30 threeRowStorage)))
   \<and> fst (getSensorReadingsByTimeRange 30 15 threeRowStorage) = []"
proof -
  have g: "gateway threeRowStorage" and o: "dbOk (snd (fetchFromExternalDatabase threeRowStorage))"
    by (simp_all add: threeRowStorage_def threeReadings_def orchestrator_defs rejected_fetch)
  have v: "map r_id (fst (getSensorReadingsByTimeRange 15 30 threeRowStorage)) = [RowId 2, RowId 1]"
    by (simp add: threeRowStorage_def threeReadings_def orchestrator_defs rejected_fetch sampleReading_def)
  show ?thesis
    using time_range_live [OF g o, of 15 30] time_range_live [OF g o, of 30 15] g o v
    by simp
qed


subsection \<open>The availability flag\<close>


lemma successful_query_restores:
  assumes "gateway s" and "dbOk s"
  shows "databaseAvailable (snd (getSystemStatus s))"
    and "databaseAvailable (snd (getAlertSettings s))"
  using assms
  by (simp_all add: getSystemStatus_def getAlertSettings_def Let_def split: option.splits)

lemma createSensorReading_never_restores:
  "databaseAvailable (snd (createSensorReading v s)) \<Longrightarrow> databaseAvailable s"
  by (auto simp: createSensorReading_def memoryReading_def Let_def
      dest: updateSystemStatus_flag split: if_splits)

text \<open>
  C1. The claim does not hold of \<open>createSensorReading\<close>: with the flag down and the
  store working again, the insert and the recount succeed and the flag stays down,
  while the insert of the priming fetch on the same state raises it.
\<close>

theorem createSensorReading_keeps_degraded:
  "databaseAvailable blipStorage \<and> \<not> databaseAvailable blipDegraded
   \<and> r_id (fst (createSensorReading sampleValues blipDegraded)) = RowId 2
   \<and> sensorReadings (db (snd (createSensorReading sampleValues blipDegraded)))
       = [fst (createSensorReading sampleValues blipDegraded)]
   \<and> map_option dataPoints (statusRow (db (snd (createSensorReading sampleValues blipDegraded)))) = Some 1
   \<and> \<not> databaseAvailable (snd (createSensorReading sampleValues blipDegraded))
   \<and> databaseAvailable (snd (storeExternal T0 (hydroReading T0) blipDegraded))"
  by (simp add: blipDegraded_def blipStorage_def orchestrator_defs write_defs hydroReading_def)

subsection \<open>Degraded mode and the status\<close>


















end
